theory Spec2Isabelle
  imports Complex_Main
begin

section \<open>JavaScript values, errors and strings\<close>

text \<open>
  The orchestration core of the backend (\<^verbatim>\<open>mcpBridge.js\<close>, \<^verbatim>\<open>toolManager.js\<close>,
  \<^verbatim>\<open>mcpClient.js\<close>, \<^verbatim>\<open>modelManager.js\<close>, \<^verbatim>\<open>claudeClient.js\<close>) is embedded as total
  functions. Every \<^verbatim>\<open>throw\<close> of the source is the \<open>Inl\<close> branch of a sum, every
  \<^verbatim>\<open>try/catch\<close> a case distinction on it, every mutation of an object a new state value.
  What lies outside the process (the HTTP servers, the file system, the language model),
  the built-ins \<^verbatim>\<open>JSON.parse\<close> and \<^verbatim>\<open>parseFloat\<close>, and the error the HTTP client
  libraries raise for a form they cannot send are fields of a record \<open>world\<close>.
  JavaScript numbers are modelled as reals (and \<open>JNaN\<close>); timestamps and log output are
  left out.
\<close>

datatype jsval = JUndefined | JNull | JBool bool | JNum real | JNaN | JStr string

text \<open>Truthiness, as \<^verbatim>\<open>if (v)\<close> tests it.\<close>

fun truthy :: "jsval \<Rightarrow> bool" where
  "truthy JUndefined = False"
| "truthy JNull = False"
| "truthy (JBool b) = b"
| "truthy (JNum r) = (r \<noteq> 0)"
| "truthy JNaN = False"
| "truthy (JStr s) = (s \<noteq> [])"

text \<open>An \<^verbatim>\<open>Error\<close> object: its \<^verbatim>\<open>code\<close> (set by the network layer) and its \<^verbatim>\<open>message\<close>.\<close>

datatype js_error = JsError (code: "string option") (message: string)

abbreviation new_Error :: "string \<Rightarrow> js_error" where
  "new_Error m \<equiv> JsError None m"

text \<open>A plain object with string keys, in insertion order; assignment to an existing
  key keeps its position.\<close>

type_synonym obj = "(string \<times> jsval) list"

fun obj_get :: "obj \<Rightarrow> string \<Rightarrow> jsval" where
  "obj_get [] k = JUndefined"
| "obj_get ((k', v) # ps) k = (if k' = k then v else obj_get ps k)"

fun obj_set :: "string \<Rightarrow> jsval \<Rightarrow> obj \<Rightarrow> obj" where
  "obj_set k v [] = [(k, v)]"
| "obj_set k v ((k', v') # ps) = (if k' = k then (k, v) # ps else (k', v') # obj_set k v ps)"

text \<open>\<^verbatim>\<open>Object.assign(target, src)\<close>.\<close>

fun obj_assign :: "obj \<Rightarrow> obj \<Rightarrow> obj" where
  "obj_assign target [] = target"
| "obj_assign target ((k, v) # ps) = obj_assign (obj_set k v target) ps"

text \<open>\<^verbatim>\<open>s.includes(n)\<close>, \<^verbatim>\<open>xs.join(sep)\<close>, \<^verbatim>\<open>[...new Set(xs)]\<close> (first occurrences, in
  order), and the decimal rendering of a non-negative integer in a template string.\<close>

definition starts_with :: "string \<Rightarrow> string \<Rightarrow> bool" where
  "starts_with s n = (take (length n) s = n)"

fun str_includes :: "string \<Rightarrow> string \<Rightarrow> bool" where
  "str_includes [] n = (n = [])"
| "str_includes (c # cs) n = (starts_with (c # cs) n \<or> str_includes cs n)"

fun join :: "string \<Rightarrow> string list \<Rightarrow> string" where
  "join sep [] = []"
| "join sep [x] = x"
| "join sep (x # y # ys) = x @ sep @ join sep (y # ys)"

fun new_Set :: "'a list \<Rightarrow> 'a list" where
  "new_Set [] = []"
| "new_Set (x # xs) = x # new_Set (filter (\<lambda>y. y \<noteq> x) xs)"

definition digit :: "nat \<Rightarrow> char" where
  "digit d = ''0123456789'' ! d"

fun decimal :: "nat \<Rightarrow> string" where
  "decimal n = (if n < 10 then [digit n] else decimal (n div 10) @ [digit (n mod 10)])"

declare decimal.simps [simp del]

text \<open>\<^verbatim>\<open>type.split('/')[1]\<close>: the text between the first and the second slash;
  \<^verbatim>\<open>undefined\<close> when there is no slash, which \<^verbatim>\<open>includes\<close> then reads as the string
  "undefined".\<close>

definition split_second :: "string \<Rightarrow> string" where
  "split_second t =
     (let rest = dropWhile (\<lambda>c. c \<noteq> CHR ''/'') t
      in if rest = [] then ''undefined'' else takeWhile (\<lambda>c. c \<noteq> CHR ''/'') (tl rest))"

section \<open>Regular expressions of the source\<close>

text \<open>
  \<^verbatim>\<open>text.match(/\{[\s\S]*\}/)\<close> (\<^verbatim>\<open>selectTools\<close>, \<^verbatim>\<open>generateStructuredResponse\<close>): the
  leftmost match starts at the first \<^verbatim>\<open>{\<close> that has a \<^verbatim>\<open>}\<close> after it, and the greedy
  \<^verbatim>\<open>[\s\S]*\<close> extends it to the last \<^verbatim>\<open>}\<close> of the text. A \<^verbatim>\<open>}\<close> after a later
  \<^verbatim>\<open>{\<close> is also after the first one, so only the first \<^verbatim>\<open>{\<close> has to be tried.
  The result is \<^verbatim>\<open>jsonMatch[0]\<close>, or \<open>None\<close> for \<^verbatim>\<open>null\<close>.
\<close>

definition jsonMatch :: "string \<Rightarrow> string option" where
  "jsonMatch s =
     (let from_brace = dropWhile (\<lambda>c. c \<noteq> CHR ''{'') s
      in if from_brace = [] then None
         else let inner = rev (dropWhile (\<lambda>c. c \<noteq> CHR ''}'') (rev (tl from_brace)))
              in if inner = [] then None else Some (CHR ''{'' # inner))"

text \<open>
  \<^verbatim>\<open>userMessage.match(/confidence[:\s]*([0-9.]+)/i)\<close> (\<^verbatim>\<open>getToolParameters\<close>): at the
  leftmost position where the word stands (in any case) and, after any colons and white
  space, a digit or dot follows; the result is the captured group, the longest run of
  digits and dots there. The two character classes are disjoint, so backtracking into
  \<^verbatim>\<open>[:\s]*\<close> finds nothing more. White space is the ASCII part of \<^verbatim>\<open>\s\<close>.
\<close>

definition lower :: "char \<Rightarrow> char" where
  "lower c = (case map_of (zip ''ABCDEFGHIJKLMNOPQRSTUVWXYZ'' ''abcdefghijklmnopqrstuvwxyz'') c of
                None \<Rightarrow> c | Some l \<Rightarrow> l)"

definition colon_or_space :: "char \<Rightarrow> bool" where
  "colon_or_space c = (c \<in> set [CHR '':'', CHR '' '', CHR 0x09, CHR 0x0A, CHR 0x0B, CHR 0x0C, CHR 0x0D])"

definition digit_or_dot :: "char \<Rightarrow> bool" where
  "digit_or_dot c = (c \<in> set ''0123456789.'')"

definition confidence_here :: "string \<Rightarrow> string option" where
  "confidence_here s =
     (if map lower (take 10 s) = ''confidence''
      then let grp = takeWhile digit_or_dot (dropWhile colon_or_space (drop 10 s))
           in if grp = [] then None else Some grp
      else None)"

fun confidenceMatch :: "string \<Rightarrow> string option" where
  "confidenceMatch [] = None"
| "confidenceMatch (c # cs) =
     (case confidence_here (c # cs) of Some grp \<Rightarrow> Some grp | None \<Rightarrow> confidenceMatch cs)"

section \<open>Data model\<close>

text \<open>An uploaded file as the core sees it; \<^verbatim>\<open>path\<close> is only set by \<^verbatim>\<open>executeMCPTool\<close>.\<close>

record file_rec =
  file_name :: string
  file_type :: string
  file_path :: "string option"

text \<open>An entry of \<^verbatim>\<open>available_tools\<close> in \<^verbatim>\<open>config/tools.json\<close>.\<close>

record param_spec =
  default_value :: jsval
  min_value :: "real option"
  max_value :: "real option"

record tool_config =
  tool_id :: string
  endpoint :: string
  input_types :: "string list"
  parameters :: "(string \<times> param_spec) list"
  source :: string
  server :: "string option"

text \<open>The argument \<^verbatim>\<open>{files, userRequest, parameters}\<close> of \<^verbatim>\<open>toolManager.executeTool\<close>.\<close>

record invocation =
  inv_files :: "file_rec list"
  userRequest :: string
  inv_parameters :: "obj option"

text \<open>What \<^verbatim>\<open>convertParametersForMCP\<close> builds.\<close>

record mcp_params =
  pdf_path :: "string option"
  confidence :: jsval

text \<open>An HTTP POST: a multipart form (a file part is recorded by the path it was read
  from, a scalar by its value) or the JSON body \<^verbatim>\<open>{tool_name, arguments}\<close>.\<close>

datatype body = FormData obj | CallTool string mcp_params

datatype request = Post (req_url: string) (req_body: body)

text \<open>\<^verbatim>\<open>axios.post\<close> either resolves with a status and the response data or rejects
  with an error.\<close>

datatype http_result = Resolved nat string | Rejected js_error

text \<open>The plan object parsed from the model's text (any field may be missing) and the
  tool selection the Orchestrator works with.\<close>

record plan_json =
  pj_selected_tools :: "string list option"
  pj_execution_order :: "string list option"
  pj_tool_parameters :: "(string \<times> obj) list"

record tool_selection =
  selected_tools :: "string list"
  execution_order :: "string list option"
  tool_parameters :: "(string \<times> obj) list"

text \<open>Everything outside the process. \<open>post w n r\<close> is the outcome of request \<open>r\<close> when
  \<open>n\<close> requests were sent before it, \<open>generate w n\<close> the outcome of the model client's
  \<^verbatim>\<open>generateResponse\<close> when it was called \<open>n\<close> times before, \<open>readFile w p\<close> the error
  of reading the file at \<open>p\<close>, if any, and \<open>formError w ps\<close> the error the HTTP client
  libraries raise for a form whose scalars \<open>ps\<close> they cannot send.\<close>

record world =
  post :: "nat \<Rightarrow> request \<Rightarrow> http_result"
  readFile :: "string \<Rightarrow> js_error option"
  generate :: "nat \<Rightarrow> js_error + string"
  jsonParse :: "string \<Rightarrow> plan_json option"
  parseFloat :: "string \<Rightarrow> jsval"
  formError :: "obj \<Rightarrow> js_error"

text \<open>An \<^verbatim>\<open>MCPClient\<close> object.\<close>

record mcp_client =
  server_name :: string
  apiEndpoint :: string
  isConnected :: bool

text \<open>Model catalogue entries, the client classes of \<^verbatim>\<open>initializeModelClients\<close> and
  the model handle \<^verbatim>\<open>getModel\<close> returns.\<close>

record model_config =
  mc_id :: string
  mc_name :: string
  mc_type :: string

datatype client_kind = QwenClient | OpenAIClient | ClaudeClient | DeepSeekClient

record model_handle =
  model_id :: string
  model_name :: string
  model_type :: string
  client :: client_kind

text \<open>A tool result and a stored conversation turn (without their timestamps).\<close>

record tool_result =
  toolId :: string
  success :: bool
  result :: "string option"
  error :: "string option"

record interaction =
  int_userMessage :: string
  int_toolsUsed :: "string list"
  int_toolResults :: "tool_result list"
  int_response :: string

text \<open>What \<^verbatim>\<open>processUserRequest\<close> returns.\<close>

record turn_response =
  response :: string
  toolsUsed :: "string list"
  turn_confidence :: real
  conversationId :: string
  turn_error :: "string option"

text \<open>The mutable state of the three singletons (\<^verbatim>\<open>MCPBridge\<close>, \<^verbatim>\<open>ToolManager\<close>,
  \<^verbatim>\<open>ModelManager\<close>), with the requests sent so far, the tool ids the dispatcher was
  called with so far and the number of model calls made.\<close>

record sys =
  isInitialized :: bool
  currentModel :: "model_handle option"
  activeConversations :: "string \<rightharpoonup> interaction list"
  availableTools :: "tool_config list"
  mcpClients :: "string \<rightharpoonup> mcp_client"
  dockerEndpoint :: "string option"
  modelClients :: "string \<rightharpoonup> client_kind"
  availableModels :: "model_config list"
  posted :: "request list"
  dispatched :: "string list"
  generated :: nat

section \<open>The capability-server client (\<^verbatim>\<open>mcpClient.js\<close>)\<close>

text \<open>\<^verbatim>\<open>convertParametersForMCP\<close>: the path of the first file of type
  \<^verbatim>\<open>application/pdf\<close>, and the confidence if the invocation has one, 0.2 otherwise.\<close>

definition convertParametersForMCP :: "string \<Rightarrow> invocation \<Rightarrow> mcp_params" where
  "convertParametersForMCP tid args =
     \<lparr> pdf_path =
         (case find (\<lambda>f. file_type f = ''application/pdf'') (inv_files args) of
            None \<Rightarrow> None
          | Some pdfFile \<Rightarrow> file_path pdfFile),
       confidence =
         (case inv_parameters args of
            None \<Rightarrow> JNum 0.2
          | Some ps \<Rightarrow>
              if obj_get ps ''confidence'' \<noteq> JUndefined then obj_get ps ''confidence''
              else JNum 0.2) \<rparr>"

definition toolEndpointMap :: "string \<Rightarrow> string option" where
  "toolEndpointMap = map_of
     [(''extract_figures_from_pdf'', ''/extract-figures''),
      (''extract_tables_from_pdf'', ''/extract-tables''),
      (''extract_text_from_pdf'', ''/extract-text''),
      (''extract_formulas_from_pdf'', ''/extract-formulas''),
      (''get_pdf_document_stats'', ''/get-document-stats''),
      (''analyze_pdf_layout'', ''/analyze-layout''),
      (''extract_all_from_pdf'', ''/extract-all'')]"

text \<open>Sending a request: the world answers, the request is recorded.\<close>

definition axios_post :: "world \<Rightarrow> request \<Rightarrow> request list \<Rightarrow> http_result \<times> request list" where
  "axios_post w r sent = (post w (length sent) r, sent @ [r])"

text \<open>The two candidate requests of \<^verbatim>\<open>executeTool\<close>: the multipart form for the tool's
  own endpoint and the call by name.\<close>

definition specific_request :: "mcp_client \<Rightarrow> string \<Rightarrow> mcp_params \<Rightarrow> request" where
  "specific_request c specificEndpoint mcpParams =
     Post (apiEndpoint c @ specificEndpoint)
       (FormData
         ((case pdf_path mcpParams of
             None \<Rightarrow> []
           | Some p \<Rightarrow> if p \<noteq> [] then [(''file'', JStr p)] else []) @
          (if truthy (confidence mcpParams) then [(''confidence'', confidence mcpParams)] else [])))"

definition call_tool_request :: "mcp_client \<Rightarrow> string \<Rightarrow> mcp_params \<Rightarrow> request" where
  "call_tool_request c tid mcpParams = Post (apiEndpoint c @ ''/mcp/call-tool'') (CallTool tid mcpParams)"

text \<open>The inner \<^verbatim>\<open>try\<close> block for a tool with an entry in \<^verbatim>\<open>toolEndpointMap\<close>:
  \<^verbatim>\<open>readFileSync\<close> of the PDF, then the POST; either can throw.\<close>

definition specific_attempt ::
  "world \<Rightarrow> mcp_client \<Rightarrow> string \<Rightarrow> mcp_params \<Rightarrow> request list
     \<Rightarrow> (js_error + nat \<times> string) \<times> request list" where
  "specific_attempt w c specificEndpoint mcpParams sent =
     (case (case pdf_path mcpParams of
              None \<Rightarrow> None
            | Some p \<Rightarrow> if p \<noteq> [] then readFile w p else None) of
        Some e \<Rightarrow> (Inl e, sent)
      | None \<Rightarrow>
          (case axios_post w (specific_request c specificEndpoint mcpParams) sent of
             (Resolved st d, sent') \<Rightarrow> (Inr (st, d), sent')
           | (Rejected e, sent') \<Rightarrow> (Inl e, sent')))"

text \<open>The body of the outer \<^verbatim>\<open>try\<close> of \<^verbatim>\<open>MCPClient.executeTool\<close>.\<close>

definition executeTool_try ::
  "world \<Rightarrow> mcp_client \<Rightarrow> string \<Rightarrow> invocation \<Rightarrow> request list
     \<Rightarrow> (js_error + string) \<times> request list" where
  "executeTool_try w c tid args sent =
     (if \<not> isConnected c
      then (Inl (new_Error (''MCP server '' @ server_name c @ '' is not connected'')), sent)
      else
        let mcpParams = convertParametersForMCP tid args;
            (r, sent') =
              (case toolEndpointMap tid of
                 Some specificEndpoint \<Rightarrow>
                   (case specific_attempt w c specificEndpoint mcpParams sent of
                      (Inr resp, sent1) \<Rightarrow> (Inr resp, sent1)
                    | (Inl specificError, sent1) \<Rightarrow>
                        (case axios_post w (call_tool_request c tid mcpParams) sent1 of
                           (Resolved st d, sent2) \<Rightarrow> (Inr (st, d), sent2)
                         | (Rejected mcpError, sent2) \<Rightarrow> (Inl specificError, sent2)))
               | None \<Rightarrow>
                   (case axios_post w (call_tool_request c tid mcpParams) sent of
                      (Resolved st d, sent1) \<Rightarrow> (Inr (st, d), sent1)
                    | (Rejected e, sent1) \<Rightarrow> (Inl e, sent1)))
        in case r of
             Inl e \<Rightarrow> (Inl e, sent')
           | Inr (st, d) \<Rightarrow>
               if st \<noteq> 200
               then (Inl (new_Error (''MCP tool execution failed with status: '' @ decimal st)), sent')
               else (Inr d, sent'))"

text \<open>\<^verbatim>\<open>MCPClient.executeTool\<close> with its outer \<^verbatim>\<open>catch\<close>, which rewrites a refused
  connection (and marks the client disconnected) and a timeout, and rethrows the rest.\<close>

definition MCPClient_executeTool ::
  "world \<Rightarrow> string \<Rightarrow> invocation \<Rightarrow> mcp_client \<times> request list
     \<Rightarrow> (js_error + string) \<times> mcp_client \<times> request list" where
  "MCPClient_executeTool w tid args st =
     (case st of (c, sent) \<Rightarrow>
        (case executeTool_try w c tid args sent of
           (Inr d, sent') \<Rightarrow> (Inr d, c, sent')
         | (Inl e, sent') \<Rightarrow>
             if code e = Some ''ECONNREFUSED''
             then (Inl (new_Error (''MCP server '' @ server_name c @ '' is not accessible'')),
                   c\<lparr>isConnected := False\<rparr>, sent')
             else if code e = Some ''ETIMEDOUT''
             then (Inl (new_Error (''MCP tool '' @ tid @ '' execution timed out'')), c, sent')
             else (Inl e, c, sent')))"

section \<open>The tool registry and dispatcher (\<^verbatim>\<open>toolManager.js\<close>)\<close>

definition getToolConfig :: "sys \<Rightarrow> string \<Rightarrow> tool_config option" where
  "getToolConfig s tid = find (\<lambda>tool. tool_id tool = tid) (availableTools s)"

text \<open>\<^verbatim>\<open>tool.server || 'document_analysis'\<close>.\<close>

definition server_or_default :: "tool_config \<Rightarrow> string" where
  "server_or_default tool =
     (case server tool of
        None \<Rightarrow> ''document_analysis''
      | Some n \<Rightarrow> if n = [] then ''document_analysis'' else n)"

definition isToolAvailable :: "sys \<Rightarrow> tool_config \<Rightarrow> bool" where
  "isToolAvailable s tool =
     (if source tool = ''mcp''
      then (case mcpClients s (server_or_default tool) of
              None \<Rightarrow> False
            | Some mcpClient \<Rightarrow> isConnected mcpClient)
      else if source tool = ''docker'' then dockerEndpoint s \<noteq> None
      else False)"

text \<open>\<^verbatim>\<open>getAvailableTools\<close> pairs every catalogue entry with its \<^verbatim>\<open>available\<close> flag.\<close>

definition getAvailableTools :: "sys \<Rightarrow> (tool_config \<times> bool) list" where
  "getAvailableTools s = map (\<lambda>tool. (tool, isToolAvailable s tool)) (availableTools s)"

text \<open>\<^verbatim>\<open>path.join(__dirname, '../../uploads', file.name)\<close>, relative to the backend.\<close>

definition upload_path :: "string \<Rightarrow> string" where
  "upload_path n = ''uploads/'' @ n"

definition executeMCPTool ::
  "world \<Rightarrow> tool_config \<Rightarrow> invocation \<Rightarrow> sys \<Rightarrow> (js_error + string) \<times> sys" where
  "executeMCPTool w toolConfig args s =
     (let serverName = server_or_default toolConfig
      in case mcpClients s serverName of
           None \<Rightarrow> (Inl (new_Error (''MCP client '' @ serverName @ '' not available'')), s)
         | Some mcpClient \<Rightarrow>
             let args' = args\<lparr>inv_files :=
                   map (\<lambda>file. file\<lparr>file_path := Some (upload_path (file_name file))\<rparr>) (inv_files args)\<rparr>
             in case MCPClient_executeTool w (tool_id toolConfig) args' (mcpClient, posted s) of
                  (r, c', sent') \<Rightarrow>
                    (r, s\<lparr>mcpClients := (mcpClients s)(serverName \<mapsto> c'), posted := sent'\<rparr>))"

text \<open>What the \<^verbatim>\<open>form-data\<close> package and the HTTP client can put on the wire as a scalar
  field: a string, or a number, which \<^verbatim>\<open>append\<close> turns into a string. A boolean or
  \<^verbatim>\<open>null\<close> makes the call fail inside the client, before anything is sent.\<close>

fun sendable :: "jsval \<Rightarrow> bool" where
  "sendable (JStr v) = True"
| "sendable (JNum r) = True"
| "sendable JNaN = True"
| "sendable _ = False"

text \<open>The scalar parameters \<^verbatim>\<open>executeDockerTool\<close> appends to its form.\<close>

definition scalar_fields :: "invocation \<Rightarrow> obj" where
  "scalar_fields args = (case inv_parameters args of None \<Rightarrow> [] | Some ps \<Rightarrow> ps)"

text \<open>The multipart request of \<^verbatim>\<open>executeDockerTool\<close>: one \<^verbatim>\<open>file\<close> part per file, then
  the scalar parameters; there is no request when one of them cannot be sent.\<close>

definition docker_request :: "string \<Rightarrow> tool_config \<Rightarrow> invocation \<Rightarrow> request option" where
  "docker_request de toolConfig args =
     (if list_all (\<lambda>p. sendable (snd p)) (scalar_fields args)
      then Some (Post (de @ endpoint toolConfig)
                   (FormData
                     (map (\<lambda>file. (''file'', JStr (upload_path (file_name file)))) (inv_files args) @
                      scalar_fields args)))
      else None)"

text \<open>\<^verbatim>\<open>executeDockerTool\<close>: the endpoint must be configured, every file is read (the
  first unreadable one aborts), the parameters are appended and the form is posted. Its
  \<^verbatim>\<open>catch\<close> logs and rethrows.\<close>

definition executeDockerTool ::
  "world \<Rightarrow> tool_config \<Rightarrow> invocation \<Rightarrow> sys \<Rightarrow> (js_error + string) \<times> sys" where
  "executeDockerTool w toolConfig args s =
     (case dockerEndpoint s of
        None \<Rightarrow> (Inl (new_Error ''Docker endpoint not configured''), s)
      | Some de \<Rightarrow>
          if de = [] then (Inl (new_Error ''Docker endpoint not configured''), s)
          else
            (case find (\<lambda>file. readFile w (upload_path (file_name file)) \<noteq> None) (inv_files args) of
               Some file \<Rightarrow>
                 (Inl (new_Error (''File '' @ file_name file @ '' not found or not readable'')), s)
             | None \<Rightarrow>
                 (case docker_request de toolConfig args of
                    None \<Rightarrow> (Inl (formError w (scalar_fields args)), s)
                  | Some r \<Rightarrow>
                      (case axios_post w r (posted s) of
                         (Resolved st d, sent') \<Rightarrow> (Inr d, s\<lparr>posted := sent'\<rparr>)
                       | (Rejected e, sent') \<Rightarrow> (Inl e, s\<lparr>posted := sent'\<rparr>)))))"

text \<open>\<^verbatim>\<open>ToolManager.executeTool\<close>; every call is recorded in \<open>dispatched\<close>.\<close>

definition ToolManager_executeTool ::
  "world \<Rightarrow> string \<Rightarrow> invocation \<Rightarrow> sys \<Rightarrow> (js_error + string) \<times> sys" where
  "ToolManager_executeTool w tid args s =
     (let called = s\<lparr>dispatched := dispatched s @ [tid]\<rparr>
      in case getToolConfig called tid of
           None \<Rightarrow> (Inl (new_Error (''Tool '' @ tid @ '' not found'')), called)
         | Some toolConfig \<Rightarrow>
             if source toolConfig = ''mcp'' then executeMCPTool w toolConfig args called
             else if source toolConfig = ''docker'' then executeDockerTool w toolConfig args called
             else (Inl (new_Error (''Unknown tool source: '' @ source toolConfig)), called))"

section \<open>The model gateway (\<^verbatim>\<open>modelManager.js\<close>, \<^verbatim>\<open>claudeClient.js\<close>)\<close>

text \<open>\<^verbatim>\<open>getModel\<close> throws when no client was initialised for the id; reading
  \<^verbatim>\<open>config.name\<close> of a missing catalogue entry is a \<^verbatim>\<open>TypeError\<close>.\<close>

definition getModel :: "sys \<Rightarrow> string \<Rightarrow> js_error + model_handle" where
  "getModel s modelId =
     (case modelClients s modelId of
        None \<Rightarrow> Inl (new_Error (''Model '' @ modelId @ '' not available''))
      | Some cl \<Rightarrow>
          (case find (\<lambda>m. mc_id m = modelId) (availableModels s) of
             None \<Rightarrow> Inl (new_Error ''Cannot read properties of undefined'')
           | Some config \<Rightarrow>
               Inr \<lparr> model_id = modelId, model_name = mc_name config,
                     model_type = mc_type config, client = cl \<rparr>))"

text \<open>Only \<^verbatim>\<open>ClaudeClient\<close> defines \<^verbatim>\<open>orchestrateTools\<close> and \<^verbatim>\<open>synthesizeResponse\<close>
  among the client classes of the sources; the Orchestrator asks for them only after
  comparing the model id with \<^verbatim>\<open>claude-3-sonnet\<close>.\<close>

fun has_orchestrateTools :: "client_kind \<Rightarrow> bool" where
  "has_orchestrateTools ClaudeClient = True"
| "has_orchestrateTools _ = False"

fun has_synthesizeResponse :: "client_kind \<Rightarrow> bool" where
  "has_synthesizeResponse ClaudeClient = True"
| "has_synthesizeResponse _ = False"

text \<open>One call of the active client's \<^verbatim>\<open>generateResponse\<close>.\<close>

definition generateResponse :: "world \<Rightarrow> sys \<Rightarrow> (js_error + string) \<times> sys" where
  "generateResponse w s = (generate w (generated s), s\<lparr>generated := Suc (generated s)\<rparr>)"

text \<open>The parsing steps of \<^verbatim>\<open>generateStructuredResponse\<close>: the whole text first, then
  the span found by the regular expression.\<close>

definition parseStructured :: "world \<Rightarrow> string \<Rightarrow> js_error + plan_json" where
  "parseStructured w txt =
     (case jsonParse w txt of
        Some v \<Rightarrow> Inr v
      | None \<Rightarrow>
          (case jsonMatch txt of
             Some m \<Rightarrow>
               (case jsonParse w m of
                  Some v \<Rightarrow> Inr v
                | None \<Rightarrow> Inl (new_Error ''Claude response is not valid JSON''))
           | None \<Rightarrow> Inl (new_Error ''No valid JSON found in Claude response'')))"

definition generateStructuredResponse :: "world \<Rightarrow> sys \<Rightarrow> (js_error + plan_json) \<times> sys" where
  "generateStructuredResponse w s =
     (case generateResponse w s of
        (Inl e, s') \<Rightarrow> (Inl e, s')
      | (Inr txt, s') \<Rightarrow> (parseStructured w txt, s'))"

section \<open>The Orchestrator (\<^verbatim>\<open>mcpBridge.js\<close>)\<close>

text \<open>\<^verbatim>\<open>switchModel\<close>: \<^verbatim>\<open>getModel\<close> returns an object or throws, so the test
  \<^verbatim>\<open>if (!model)\<close> never fires; the \<^verbatim>\<open>catch\<close> logs and rethrows.\<close>

definition switchModel :: "sys \<Rightarrow> string \<Rightarrow> (js_error + bool) \<times> sys" where
  "switchModel s modelId =
     (case getModel s modelId of
        Inl e \<Rightarrow> (Inl e, s)
      | Inr model \<Rightarrow> (Inr True, s\<lparr>currentModel := Some model\<rparr>))"

text \<open>The tool \<^verbatim>\<open>fallbackToolSelection\<close> pushes for one file, if any.\<close>

definition fallback_tool :: "file_rec \<Rightarrow> string list" where
  "fallback_tool file =
     (let t = file_type file
      in if str_includes t ''pdf'' then [''extract_all_from_pdf'']
         else if str_includes t ''excel'' \<or> str_includes t ''spreadsheet'' then [''excel_processor'']
         else if str_includes t ''image'' then [''image_analyzer'']
         else if str_includes t ''text'' \<or> str_includes t ''word'' then [''text_processor'']
         else if str_includes t ''video'' then [''video_processor'']
         else if str_includes t ''audio'' then [''audio_processor'']
         else [])"

definition fallbackToolSelection :: "file_rec list \<Rightarrow> tool_selection" where
  "fallbackToolSelection uploadedFiles =
     (let tools = concat (map fallback_tool uploadedFiles)
      in \<lparr> selected_tools = new_Set tools, execution_order = Some (new_Set tools),
           tool_parameters = [] \<rparr>)"

text \<open>The tools the planner is offered: the catalogue entries whose flag is set.\<close>

definition activeTools :: "sys \<Rightarrow> (tool_config \<times> bool) list" where
  "activeTools s = filter (\<lambda>tool. snd tool) (getAvailableTools s)"

text \<open>The validation step shared by both planners: \<^verbatim>\<open>selected_tools\<close> is filtered
  against the active tools, the other fields are kept as parsed. A parsed value without
  a \<^verbatim>\<open>selected_tools\<close> array makes \<^verbatim>\<open>.filter\<close> throw.\<close>

definition validate_selection :: "sys \<Rightarrow> plan_json \<Rightarrow> js_error + tool_selection" where
  "validate_selection s pj =
     (case pj_selected_tools pj of
        None \<Rightarrow> Inl (new_Error ''Cannot read properties of undefined'')
      | Some sel \<Rightarrow>
          Inr \<lparr> selected_tools =
                  filter (\<lambda>tid. list_ex (\<lambda>t. tool_id (fst t) = tid) (activeTools s)) sel,
                execution_order = pj_execution_order pj,
                tool_parameters = pj_tool_parameters pj \<rparr>)"

text \<open>The parsing step of \<^verbatim>\<open>selectTools\<close>: the span found by the regular expression if
  there is one, the whole text otherwise; \<open>None\<close> when \<^verbatim>\<open>JSON.parse\<close> throws.\<close>

definition parseToolSelection :: "world \<Rightarrow> string \<Rightarrow> plan_json option" where
  "parseToolSelection w modelResponse =
     (case jsonMatch modelResponse of
        Some m \<Rightarrow> jsonParse w m
      | None \<Rightarrow> jsonParse w modelResponse)"

definition selectTools :: "world \<Rightarrow> file_rec list \<Rightarrow> sys \<Rightarrow> tool_selection \<times> sys" where
  "selectTools w uploadedFiles s =
     (if activeTools s = [] then (fallbackToolSelection uploadedFiles, s)
      else
        (case generateResponse w s of
           (Inl e, s') \<Rightarrow> (fallbackToolSelection uploadedFiles, s')
         | (Inr modelResponse, s') \<Rightarrow>
             (case parseToolSelection w modelResponse of
                None \<Rightarrow> (fallbackToolSelection uploadedFiles, s')
              | Some pj \<Rightarrow>
                  (case validate_selection s pj of
                     Inl e \<Rightarrow> (fallbackToolSelection uploadedFiles, s')
                   | Inr toolSelection \<Rightarrow> (toolSelection, s')))))"

definition selectToolsWithClaude :: "world \<Rightarrow> file_rec list \<Rightarrow> sys \<Rightarrow> tool_selection \<times> sys" where
  "selectToolsWithClaude w uploadedFiles s =
     (if activeTools s = []
      then (\<lparr> selected_tools = [], execution_order = Some [], tool_parameters = [] \<rparr>, s)
      else
        (case generateStructuredResponse w s of
           (Inl e, s') \<Rightarrow> (fallbackToolSelection uploadedFiles, s')
         | (Inr pj, s') \<Rightarrow>
             (case validate_selection s pj of
                Inl e \<Rightarrow> (fallbackToolSelection uploadedFiles, s')
              | Inr toolSelection \<Rightarrow> (toolSelection, s'))))"

definition filterFilesForTool :: "sys \<Rightarrow> string \<Rightarrow> file_rec list \<Rightarrow> file_rec list" where
  "filterFilesForTool s tid uploadedFiles =
     (case getToolConfig s tid of
        None \<Rightarrow> uploadedFiles
      | Some toolConfig \<Rightarrow>
          filter (\<lambda>file. list_ex (\<lambda>t. file_type file = t \<or> str_includes (file_type file) (split_second t))
                                  (input_types toolConfig))
                 uploadedFiles)"

definition getToolParameters :: "world \<Rightarrow> sys \<Rightarrow> string \<Rightarrow> string \<Rightarrow> tool_selection \<Rightarrow> obj" where
  "getToolParameters w s tid msg toolSelection =
     (let params0 =
            (case getToolConfig s tid of
               None \<Rightarrow> []
             | Some toolConfig \<Rightarrow> map (\<lambda>(k, spec). (k, default_value spec)) (parameters toolConfig));
          params1 =
            (case map_of (tool_parameters toolSelection) tid of
               None \<Rightarrow> params0
             | Some override \<Rightarrow> obj_assign params0 override)
      in case confidenceMatch msg of
           None \<Rightarrow> params1
         | Some grp \<Rightarrow> obj_set ''confidence'' (parseFloat w grp) params1)"

text \<open>The argument the loop of \<^verbatim>\<open>executeTools\<close> builds for a tool id: the relevant
  files, the message and the merged parameters.\<close>

definition invocation_for ::
  "world \<Rightarrow> tool_selection \<Rightarrow> file_rec list \<Rightarrow> string \<Rightarrow> sys \<Rightarrow> string \<Rightarrow> invocation" where
  "invocation_for w toolSelection uploadedFiles msg s tid =
     \<lparr> inv_files = filterFilesForTool s tid uploadedFiles, userRequest = msg,
       inv_parameters = Some (getToolParameters w s tid msg toolSelection) \<rparr>"

text \<open>The loop of \<^verbatim>\<open>executeTools\<close>: one dispatcher call per tool id, and one push in
  the \<^verbatim>\<open>try\<close> or in the \<^verbatim>\<open>catch\<close>.\<close>

fun executeLoop ::
  "world \<Rightarrow> tool_selection \<Rightarrow> file_rec list \<Rightarrow> string \<Rightarrow> string list \<Rightarrow> tool_result list \<Rightarrow> sys
     \<Rightarrow> tool_result list \<times> sys" where
  "executeLoop w toolSelection uploadedFiles msg [] acc s = (acc, s)"
| "executeLoop w toolSelection uploadedFiles msg (tid # rest) acc s =
     (case ToolManager_executeTool w tid (invocation_for w toolSelection uploadedFiles msg s tid) s of
        (Inr res, s') \<Rightarrow>
          executeLoop w toolSelection uploadedFiles msg rest
            (acc @ [\<lparr> toolId = tid, success = True, result = Some res, error = None \<rparr>]) s'
      | (Inl e, s') \<Rightarrow>
          executeLoop w toolSelection uploadedFiles msg rest
            (acc @ [\<lparr> toolId = tid, success = False, result = None, error = Some (message e) \<rparr>]) s')"

text \<open>\<^verbatim>\<open>toolSelection.execution_order || toolSelection.selected_tools\<close>: an array, even
  an empty one, is truthy.\<close>

definition executionOrder :: "tool_selection \<Rightarrow> string list" where
  "executionOrder toolSelection =
     (case execution_order toolSelection of
        Some order \<Rightarrow> order
      | None \<Rightarrow> selected_tools toolSelection)"

definition executeTools ::
  "world \<Rightarrow> tool_selection \<Rightarrow> file_rec list \<Rightarrow> string \<Rightarrow> sys \<Rightarrow> tool_result list \<times> sys" where
  "executeTools w toolSelection uploadedFiles msg s =
     (if length (executionOrder toolSelection) = 0 then ([], s)
      else executeLoop w toolSelection uploadedFiles msg (executionOrder toolSelection) [] s)"

text \<open>\<^verbatim>\<open>${r.error}\<close> and the preview \<^verbatim>\<open>JSON.stringify(result.result).substring(0, 200)\<close>;
  a payload is kept as its JSON text.\<close>

definition error_text :: "tool_result \<Rightarrow> string" where
  "error_text r = (case error r of None \<Rightarrow> ''undefined'' | Some m \<Rightarrow> m)"

definition preview :: "tool_result \<Rightarrow> string" where
  "preview r = take 200 (case result r of None \<Rightarrow> [] | Some d \<Rightarrow> d)"

definition generateFallbackResponse :: "tool_result list \<Rightarrow> string" where
  "generateFallbackResponse toolResults =
     (let successfulResults = filter success toolResults;
          failedResults = filter (\<lambda>r. \<not> success r) toolResults
      in if length successfulResults = 0
         then (if length failedResults > 0
               then ''I encountered the following errors while processing your request:\<newline>\<newline>'' @
                    join ''\<newline>'' (map (\<lambda>r. toolId r @ '': '' @ error_text r) failedResults) @
                    ''\<newline>\<newline>Please check your files and system configuration.''
               else ''I apologize, but I couldn't process your request. Please ensure your files are valid and the system is properly configured.'')
         else ''I've analyzed your files. Here's what I found:\<newline>\<newline>'' @
              concat (map (\<lambda>r. ''**'' @ toolId r @ ''**: '' @ preview r @
                                 (if length (preview r) = 200 then ''...'' else []) @ ''\<newline>\<newline>'')
                          successfulResults) @
              (if length failedResults > 0
               then ''\<newline>Note: Some tools encountered errors: '' @ join '', '' (map toolId failedResults)
               else []))"

definition synthesizeResponse :: "world \<Rightarrow> tool_result list \<Rightarrow> sys \<Rightarrow> string \<times> sys" where
  "synthesizeResponse w toolResults s =
     (let successfulResults = filter success toolResults;
          failedResults = filter (\<lambda>r. \<not> success r) toolResults
      in if length successfulResults = 0
         then (if length failedResults > 0
               then (''I encountered errors while processing your request: '' @
                     join ''; '' (map (\<lambda>r. toolId r @ '': '' @ error_text r) failedResults) @
                     ''. Please check your files and try again.'', s)
               else (''I apologize, but I couldn't process your request. No tools were successfully executed.'', s))
         else (case generateResponse w s of
                 (Inr txt, s') \<Rightarrow> (txt, s')
               | (Inl e, s') \<Rightarrow> (generateFallbackResponse toolResults, s')))"

definition synthesizeResponseWithClaude :: "world \<Rightarrow> tool_result list \<Rightarrow> sys \<Rightarrow> string \<times> sys" where
  "synthesizeResponseWithClaude w toolResults s =
     (case generateResponse w s of
        (Inr txt, s') \<Rightarrow> (txt, s')
      | (Inl e, s') \<Rightarrow> synthesizeResponse w toolResults s')"

definition calculateConfidence :: "tool_result list \<Rightarrow> real" where
  "calculateConfidence toolResults =
     (let successfulTools = length (filter success toolResults);
          totalTools = length toolResults
      in if totalTools = 0 then 0.5 else real successfulTools / real totalTools)"

text \<open>\<^verbatim>\<open>updateConversationContext\<close>: push, then \<^verbatim>\<open>splice(0, length - 20)\<close> when more
  than 20 are stored.\<close>

definition getConversationContext :: "sys \<Rightarrow> string \<Rightarrow> interaction list" where
  "getConversationContext s cid = (case activeConversations s cid of None \<Rightarrow> [] | Some c \<Rightarrow> c)"

definition updateConversationContext :: "string \<Rightarrow> interaction \<Rightarrow> sys \<Rightarrow> sys" where
  "updateConversationContext cid x s =
     (let context = getConversationContext s cid @ [x]
      in s\<lparr>activeConversations := (activeConversations s)
             (cid \<mapsto> (if length context > 20 then drop (length context - 20) context else context))\<rparr>)"

text \<open>The \<^verbatim>\<open>try\<close> block of \<^verbatim>\<open>processUserRequest\<close>. The planners, the executor and
  the synthesis catch their own errors, so the two guards at the top are its only
  \<^verbatim>\<open>throw\<close>s for well-typed arguments.\<close>

definition processUserRequest_try ::
  "world \<Rightarrow> string \<Rightarrow> string \<Rightarrow> file_rec list \<Rightarrow> sys \<Rightarrow> (js_error + turn_response) \<times> sys" where
  "processUserRequest_try w cid msg uploadedFiles s =
     (if \<not> isInitialized s then (Inl (new_Error ''MCP Bridge not initialized''), s)
      else
        (case currentModel s of
           None \<Rightarrow> (Inl (new_Error ''No model available''), s)
         | Some m \<Rightarrow>
             let (toolSelection, s1) =
                   (if model_id m = ''claude-3-sonnet'' \<and> has_orchestrateTools (client m)
                    then selectToolsWithClaude w uploadedFiles s
                    else selectTools w uploadedFiles s);
                 (results, s2) = executeTools w toolSelection uploadedFiles msg s1;
                 (txt, s3) =
                   (if model_id m = ''claude-3-sonnet'' \<and> has_synthesizeResponse (client m)
                    then synthesizeResponseWithClaude w results s2
                    else synthesizeResponse w results s2);
                 s4 = updateConversationContext cid
                        \<lparr> int_userMessage = msg, int_toolsUsed = selected_tools toolSelection,
                          int_toolResults = results, int_response = txt \<rparr> s3
             in (Inr \<lparr> response = txt, toolsUsed = selected_tools toolSelection,
                       turn_confidence = calculateConfidence results, conversationId = cid,
                       turn_error = None \<rparr>, s4)))"

text \<open>\<^verbatim>\<open>processUserRequest\<close> with its \<^verbatim>\<open>catch\<close>, which returns instead of throwing.\<close>

definition processUserRequest ::
  "world \<Rightarrow> string \<Rightarrow> string \<Rightarrow> file_rec list \<Rightarrow> sys \<Rightarrow> turn_response \<times> sys" where
  "processUserRequest w cid msg uploadedFiles s =
     (case processUserRequest_try w cid msg uploadedFiles s of
        (Inr r, s') \<Rightarrow> (r, s')
      | (Inl e, s') \<Rightarrow>
          (\<lparr> response = ''I encountered an error while processing your request: '' @ message e @
                         ''. Please check that your files are valid and the system is properly configured.'',
             toolsUsed = [], turn_confidence = 0, conversationId = cid,
             turn_error = Some (message e) \<rparr>, s'))"

text \<open>Dispatching a plan tool by tool, as a reference for the loop: one dispatcher call
  for a tool id in a given state, the result recorded for its outcome, and the state
  reached by one such call for each id of a list, in order.\<close>

definition dispatch_one ::
  "world \<Rightarrow> tool_selection \<Rightarrow> file_rec list \<Rightarrow> string \<Rightarrow> string \<Rightarrow> sys
     \<Rightarrow> (js_error + string) \<times> sys" where
  "dispatch_one w toolSelection uploadedFiles msg tid s =
     ToolManager_executeTool w tid (invocation_for w toolSelection uploadedFiles msg s tid) s"

definition pushed_result :: "string \<Rightarrow> js_error + string \<Rightarrow> tool_result" where
  "pushed_result tid outcome =
     (case outcome of
        Inr res \<Rightarrow> \<lparr> toolId = tid, success = True, result = Some res, error = None \<rparr>
      | Inl e \<Rightarrow> \<lparr> toolId = tid, success = False, result = None, error = Some (message e) \<rparr>)"

definition state_after ::
  "world \<Rightarrow> tool_selection \<Rightarrow> file_rec list \<Rightarrow> string \<Rightarrow> string list \<Rightarrow> sys \<Rightarrow> sys" where
  "state_after w toolSelection uploadedFiles msg tids s =
     fold (\<lambda>tid s'. snd (dispatch_one w toolSelection uploadedFiles msg tid s')) tids s"

text \<open>A sequence of turns recorded one after the other, and the turns among them that
  belong to one conversation.\<close>

definition turnsOf :: "string \<Rightarrow> (string \<times> interaction) list \<Rightarrow> interaction list" where
  "turnsOf cid turns = map snd (filter (\<lambda>p. fst p = cid) turns)"

definition recordTurns :: "(string \<times> interaction) list \<Rightarrow> sys \<Rightarrow> sys" where
  "recordTurns turns s = fold (\<lambda>(cid, x). updateConversationContext cid x) turns s"

text \<open>The number of candidate requests the dispatcher can send for a tool id: two for a
  capability-server tool (its own endpoint, then the call by name), one for a container
  tool, none for an id it does not know.\<close>

definition candidate_requests :: "sys \<Rightarrow> string \<Rightarrow> nat" where
  "candidate_requests s tid =
     (case getToolConfig s tid of
        None \<Rightarrow> 0
      | Some toolConfig \<Rightarrow>
          if source toolConfig = ''mcp'' then 2
          else if source toolConfig = ''docker'' then 1
          else 0)"

section \<open>The shipped configuration and sample environments\<close>

text \<open>Two entries of \<^verbatim>\<open>config/tools.json\<close> (one per transport), its capability server,
  and two model handles of \<^verbatim>\<open>config/models.json\<close>.\<close>

definition pdf_analyzer :: tool_config where
  "pdf_analyzer =
     \<lparr> tool_id = ''pdf_analyzer'', endpoint = ''/tools/pdf/analyze'',
       input_types = [''application/pdf''],
       parameters =
         [(''extract_images'', \<lparr> default_value = JBool False, min_value = None, max_value = None \<rparr>),
          (''extract_tables'', \<lparr> default_value = JBool True, min_value = None, max_value = None \<rparr>),
          (''language'', \<lparr> default_value = JStr ''auto'', min_value = None, max_value = None \<rparr>)],
       source = ''docker'', server = None \<rparr>"

definition extract_all_from_pdf :: tool_config where
  "extract_all_from_pdf =
     \<lparr> tool_id = ''extract_all_from_pdf'', endpoint = [],
       input_types = [''application/pdf''],
       parameters =
         [(''confidence'', \<lparr> default_value = JNum 0.2, min_value = Some 0.1, max_value = Some 0.9 \<rparr>)],
       source = ''mcp'', server = Some ''document_analysis'' \<rparr>"

definition document_analysis :: mcp_client where
  "document_analysis =
     \<lparr> server_name = ''Document Layout Analysis'', apiEndpoint = ''http://192.168.1.29:8000'',
       isConnected = True \<rparr>"

definition claude_3_sonnet :: model_handle where
  "claude_3_sonnet =
     \<lparr> model_id = ''claude-3-sonnet'', model_name = ''Claude 3 Sonnet'', model_type = ''api'',
       client = ClaudeClient \<rparr>"

definition qwen_3 :: model_handle where
  "qwen_3 =
     \<lparr> model_id = ''qwen-3-1.7b'', model_name = ''Qwen 3 - 1.7B'', model_type = ''local'',
       client = QwenClient \<rparr>"

text \<open>The state after a successful start with the local model active, both transports
  up and no conversation yet.\<close>

definition running :: sys where
  "running =
     \<lparr> isInitialized = True, currentModel = Some qwen_3, activeConversations = Map.empty,
       availableTools = [pdf_analyzer, extract_all_from_pdf],
       mcpClients = [''document_analysis'' \<mapsto> document_analysis],
       dockerEndpoint = Some ''http://localhost:8080'',
       modelClients = [''claude-3-sonnet'' \<mapsto> ClaudeClient, ''qwen-3-1.7b'' \<mapsto> QwenClient],
       availableModels =
         [\<lparr> mc_id = ''claude-3-sonnet'', mc_name = ''Claude 3 Sonnet'', mc_type = ''api'' \<rparr>,
          \<lparr> mc_id = ''qwen-3-1.7b'', mc_name = ''Qwen 3 - 1.7B'', mc_type = ''local'' \<rparr>,
          \<lparr> mc_id = ''gpt-4o'', mc_name = ''GPT-4o'', mc_type = ''api'' \<rparr>],
       posted = [], dispatched = [], generated = 0 \<rparr>"

definition report_pdf :: file_rec where
  "report_pdf = \<lparr> file_name = ''report.pdf'', file_type = ''application/pdf'', file_path = None \<rparr>"

text \<open>A world in which every request is answered with 200, every file is readable and
  the model answers \<^verbatim>\<open>OK\<close>; the samples below change one field each.\<close>

definition quiet_world :: world where
  "quiet_world =
     \<lparr> post = (\<lambda>n r. Resolved 200 ''{}''), readFile = (\<lambda>p. None), generate = (\<lambda>n. Inr ''OK''),
       jsonParse = (\<lambda>t. None), parseFloat = (\<lambda>t. JNaN),
       formError = (\<lambda>ps. new_Error ''data should be a string, Buffer or Uint8Array'') \<rparr>"

text \<open>A model that answers with a plan whose \<^verbatim>\<open>execution_order\<close> names a tool the
  catalogue does not have.\<close>

definition ghost_plan_text :: string where
  \<open>ghost_plan_text = ''{"selected_tools":["pdf_analyzer"],"execution_order":["ghost_tool"]}''\<close>

definition ghost_plan :: plan_json where
  "ghost_plan =
     \<lparr> pj_selected_tools = Some [''pdf_analyzer''], pj_execution_order = Some [''ghost_tool''],
       pj_tool_parameters = [] \<rparr>"

definition ghost_world :: world where
  "ghost_world =
     quiet_world\<lparr> generate := (\<lambda>n. Inr ghost_plan_text),
                  jsonParse := (\<lambda>t. if t = ghost_plan_text then Some ghost_plan else None) \<rparr>"

text \<open>A model that cannot be reached, and a state in which the capability server never
  came up (\<^verbatim>\<open>initializeMCPClients\<close> registered no client).\<close>

definition silent_world :: world where
  "silent_world = quiet_world\<lparr> generate := (\<lambda>n. Inl (new_Error ''Qwen inference timeout'')) \<rparr>"

definition no_server :: sys where
  "no_server = running\<lparr> mcpClients := Map.empty \<rparr>"

text \<open>A model that wraps a good plan in prose.\<close>

definition good_plan_text :: string where
  \<open>good_plan_text = ''{"selected_tools":["pdf_analyzer"]}''\<close>

definition good_plan :: plan_json where
  "good_plan =
     \<lparr> pj_selected_tools = Some [''pdf_analyzer''], pj_execution_order = None,
       pj_tool_parameters = [] \<rparr>"

definition prose_world :: world where
  "prose_world =
     quiet_world\<lparr> generate := (\<lambda>n. Inr (''Here is the plan: '' @ good_plan_text @ '' thanks'')),
                  jsonParse := (\<lambda>t. if t = good_plan_text then Some good_plan else None) \<rparr>"

text \<open>A model that plans the capability server's full extraction and then words the
  answer, and a capability server that rejects the first four requests it gets and
  answers the fifth.\<close>

definition layout_plan_text :: string where
  \<open>layout_plan_text = ''{"selected_tools":["extract_all_from_pdf"]}''\<close>

definition layout_plan :: plan_json where
  "layout_plan =
     \<lparr> pj_selected_tools = Some [''extract_all_from_pdf''], pj_execution_order = None,
       pj_tool_parameters = [] \<rparr>"

definition layout_world :: world where
  "layout_world =
     quiet_world\<lparr> generate := (\<lambda>n. if n = 0 then Inr layout_plan_text
                                     else Inr ''The report has 3 pages.''),
                  jsonParse := (\<lambda>t. if t = layout_plan_text then Some layout_plan else None) \<rparr>"

definition unavailable :: js_error where
  "unavailable = JsError (Some ''ERR_BAD_RESPONSE'') ''Request failed with status code 503''"

definition stubborn_world :: world where
  \<open>stubborn_world =
     layout_world\<lparr> post := (\<lambda>n r. if n < 4 then Rejected unavailable
                                   else Resolved 200 ''{"pages":3}'') \<rparr>\<close>

text \<open>A capability server whose tool endpoint answers 500 (the request is rejected) and
  whose call-by-name endpoint answers 202.\<close>

definition accepted_world :: world where
  \<open>accepted_world =
     quiet_world\<lparr> post := (\<lambda>n r. if req_url r = ''http://192.168.1.29:8000/extract-all''
                                  then Rejected (JsError (Some ''ERR_BAD_RESPONSE'')
                                                   ''Request failed with status code 500'')
                                  else Resolved 202 ''{"status":"accepted"}'') \<rparr>\<close>

text \<open>An invocation of a capability-server tool with one uploaded PDF, as
  \<^verbatim>\<open>executeMCPTool\<close> hands it to the client, and the same with a confidence of 5 (what
  \<^verbatim>\<open>getToolParameters\<close> scrapes from "confidence: 5").\<close>

definition pdf_args :: invocation where
  "pdf_args =
     \<lparr> inv_files = [report_pdf\<lparr>file_path := Some ''uploads/report.pdf''\<rparr>],
       userRequest = ''analyze this'', inv_parameters = Some [(''confidence'', JNum 0.2)] \<rparr>"

definition eager_args :: invocation where
  "eager_args = pdf_args\<lparr> userRequest := ''confidence: 5'', inv_parameters := Some [(''confidence'', JNum 5)] \<rparr>"

text \<open>A world that gives one answer to the first request and another to every later one.\<close>

definition two_answers :: "http_result \<Rightarrow> http_result \<Rightarrow> world" where
  "two_answers a b = quiet_world\<lparr> post := (\<lambda>n r. if n = 0 then a else b) \<rparr>"

text \<open>The plan that selects the capability server's full extraction, and a plan whose
  execution order starts with an unknown tool.\<close>

definition layout_selection :: tool_selection where
  "layout_selection =
     \<lparr> selected_tools = [''extract_all_from_pdf''], execution_order = None, tool_parameters = [] \<rparr>"

definition ghost_first :: tool_selection where
  "ghost_first =
     \<lparr> selected_tools = [''extract_all_from_pdf''],
       execution_order = Some [''ghost_tool'', ''extract_all_from_pdf''], tool_parameters = [] \<rparr>"

text \<open>Numbered turns of one conversation.\<close>

definition turn :: "nat \<Rightarrow> interaction" where
  "turn i = \<lparr> int_userMessage = decimal i, int_toolsUsed = [], int_toolResults = [],
               int_response = ''ok'' \<rparr>"

definition twenty_turns :: "(string \<times> interaction) list" where
  "twenty_turns = map (\<lambda>i. (''c1'', turn i)) [0..<20]"

section \<open>Unfolding rules for concrete runs\<close>

lemmas bridge_defs =
  processUserRequest_def processUserRequest_try_def selectTools_def selectToolsWithClaude_def
  generateStructuredResponse_def parseStructured_def generateResponse_def parseToolSelection_def
  validate_selection_def activeTools_def getAvailableTools_def isToolAvailable_def
  server_or_default_def fallbackToolSelection_def fallback_tool_def executeTools_def
  executionOrder_def filterFilesForTool_def getToolParameters_def getToolConfig_def
  synthesizeResponse_def synthesizeResponseWithClaude_def generateFallbackResponse_def
  calculateConfidence_def updateConversationContext_def getConversationContext_def
  error_text_def preview_def

lemmas dispatch_defs =
  ToolManager_executeTool_def executeMCPTool_def executeDockerTool_def MCPClient_executeTool_def
  executeTool_try_def specific_attempt_def specific_request_def call_tool_request_def
  axios_post_def convertParametersForMCP_def toolEndpointMap_def upload_path_def docker_request_def
  scalar_fields_def invocation_for_def

lemmas text_defs =
  jsonMatch_def starts_with_def split_second_def confidence_here_def lower_def
  colon_or_space_def digit_or_dot_def

lemmas sample_defs =
  running_def no_server_def pdf_analyzer_def extract_all_from_pdf_def document_analysis_def
  claude_3_sonnet_def qwen_3_def report_pdf_def quiet_world_def ghost_world_def
  ghost_plan_def ghost_plan_text_def silent_world_def good_plan_def good_plan_text_def
  prose_world_def accepted_world_def pdf_args_def eager_args_def two_answers_def
  layout_plan_text_def layout_plan_def layout_world_def unavailable_def stubborn_world_def
  layout_selection_def ghost_first_def


section \<open>Lemmas used in several places\<close>

lemma executeLoop_toolIds:
  "map toolId (fst (executeLoop w sel files msg order acc s)) = map toolId acc @ order"
proof (induction order arbitrary: acc s)
  case Nil
  then show ?case by simp
next
  case (Cons tid rest)
  show ?case
    by (simp add: Let_def Cons.IH split: prod.splits sum.splits)
qed

lemma context_after_update:
  "getConversationContext (updateConversationContext cid x s) cid =
     (let c = getConversationContext s cid @ [x] in if length c > 20 then drop (length c - 20) c else c)"
  by (simp add: updateConversationContext_def getConversationContext_def Let_def)

lemma find_first:
  "P f \<Longrightarrow> \<forall>g\<in>set before. \<not> P g \<Longrightarrow> find P (before @ f # after) = Some f"
  by (induction before) auto

lemma find_none: "\<forall>g\<in>set xs. \<not> P g \<Longrightarrow> find P xs = None"
  by (induction xs) auto

lemma executeLoop_step:
  "executeLoop w sel files msg (tid # rest) acc s =
     executeLoop w sel files msg rest
       (acc @ [pushed_result tid (fst (dispatch_one w sel files msg tid s))])
       (snd (dispatch_one w sel files msg tid s))"
  by (simp add: dispatch_one_def pushed_result_def split: prod.splits sum.splits)

lemma executeLoop_acc:
  "fst (executeLoop w sel files msg order acc s) = acc @ fst (executeLoop w sel files msg order [] s)"
proof (induction order arbitrary: acc s)
  case Nil
  show ?case by simp
next
  case (Cons tid rest)
  let ?x = "pushed_result tid (fst (dispatch_one w sel files msg tid s))"
  let ?s' = "snd (dispatch_one w sel files msg tid s)"
  have "fst (executeLoop w sel files msg (tid # rest) acc s)
          = (acc @ [?x]) @ fst (executeLoop w sel files msg rest [] ?s')"
    unfolding executeLoop_step by (rule Cons.IH)
  moreover have "fst (executeLoop w sel files msg (tid # rest) [] s)
          = [?x] @ fst (executeLoop w sel files msg rest [] ?s')"
    unfolding executeLoop_step using Cons.IH[of "[] @ [?x]" ?s'] by simp
  ultimately show ?case by simp
qed

lemma executeLoop_state:
  "snd (executeLoop w sel files msg order acc s) = state_after w sel files msg order s"
proof (induction order arbitrary: acc s)
  case Nil
  show ?case by (simp add: state_after_def)
next
  case (Cons tid rest)
  show ?case
    unfolding executeLoop_step by (simp add: Cons.IH state_after_def)
qed

lemma executeLoop_nth:
  "i < length order \<Longrightarrow>
     fst (executeLoop w sel files msg order [] s) ! i =
       pushed_result (order ! i)
         (fst (dispatch_one w sel files msg (order ! i) (state_after w sel files msg (take i order) s)))"
proof (induction order arbitrary: s i)
  case Nil
  then show ?case by simp
next
  case (Cons tid rest)
  let ?x = "pushed_result tid (fst (dispatch_one w sel files msg tid s))"
  let ?s' = "snd (dispatch_one w sel files msg tid s)"
  have unfold: "fst (executeLoop w sel files msg (tid # rest) [] s)
                  = ?x # fst (executeLoop w sel files msg rest [] ?s')"
    unfolding executeLoop_step using executeLoop_acc[of w sel files msg rest "[?x]" ?s'] by simp
  show ?case
  proof (cases i)
    case 0
    then show ?thesis by (simp add: unfold state_after_def del: executeLoop.simps)
  next
    case (Suc j)
    with Cons.prems have "j < length rest" by simp
    from Cons.IH[OF this, of ?s'] Suc show ?thesis
      by (simp add: unfold state_after_def del: executeLoop.simps)
  qed
qed

lemma executeLoop_length:
  "length (fst (executeLoop w sel files msg order acc s)) = length acc + length order"
  using executeLoop_toolIds[of w sel files msg order acc s]
  by (metis length_append length_map)

lemma ToolManager_executeTool_dispatched:
  "dispatched (snd (ToolManager_executeTool w tid args s)) = dispatched s @ [tid]"
proof -
  let ?called = "s\<lparr>dispatched := dispatched s @ [tid]\<rparr>"
  have m: "dispatched (snd (executeMCPTool w tc args ?called)) = dispatched s @ [tid]" for tc
    by (simp add: executeMCPTool_def Let_def split: option.splits prod.splits)
  have d: "dispatched (snd (executeDockerTool w tc args ?called)) = dispatched s @ [tid]" for tc
    by (simp add: executeDockerTool_def split: option.splits prod.splits http_result.splits)
  show ?thesis
    by (simp add: ToolManager_executeTool_def Let_def m d split: option.splits)
qed

lemma state_after_dispatched:
  "dispatched (state_after w sel files msg tids s) = dispatched s @ tids"
proof (induction tids arbitrary: s)
  case Nil
  show ?case by (simp add: state_after_def)
next
  case (Cons tid rest)
  have "state_after w sel files msg (tid # rest) s
          = state_after w sel files msg rest (snd (dispatch_one w sel files msg tid s))"
    by (simp add: state_after_def)
  then show ?case
    by (simp add: Cons.IH dispatch_one_def ToolManager_executeTool_dispatched)
qed

section \<open>Executing a plan\<close>

text \<open>
  Claim C4. Whatever the plan, the files, the message, the state and the answers of the
  outside world, \<^verbatim>\<open>executeTools\<close> returns one result per entry of the execution order, in
  the same positions: the tool ids of the results, read in order, are the execution order.
  The result at each position is the one recorded for the outcome of the dispatcher call
  for the tool at that position, made in the state that one dispatcher call for each
  earlier tool has left, whether those earlier calls failed or succeeded. The dispatcher
  has been called for every tool of the execution order, in order, and the final state
  is the one these calls leave. So a failure at one position does not keep the tools at
  later positions from being executed.
\<close>

theorem executeTools_one_result_per_tool:
  "map toolId (fst (executeTools w sel files msg s)) = executionOrder sel
   \<and> length (fst (executeTools w sel files msg s)) = length (executionOrder sel)
   \<and> (\<forall>i<length (executionOrder sel).
        fst (executeTools w sel files msg s) ! i =
          pushed_result (executionOrder sel ! i)
            (fst (dispatch_one w sel files msg (executionOrder sel ! i)
                   (state_after w sel files msg (take i (executionOrder sel)) s))))
   \<and> snd (executeTools w sel files msg s) = state_after w sel files msg (executionOrder sel) s
   \<and> dispatched (snd (executeTools w sel files msg s)) = dispatched s @ executionOrder sel"
proof -
  have run: "executeTools w sel files msg s = executeLoop w sel files msg (executionOrder sel) [] s"
    by (cases "executionOrder sel") (simp_all add: executeTools_def)
  have ids: "map toolId (fst (executeTools w sel files msg s)) = executionOrder sel"
    by (simp add: run executeLoop_toolIds)
  have len: "length (fst (executeTools w sel files msg s)) = length (executionOrder sel)"
    by (simp add: run executeLoop_length)
  have pos: "\<forall>i<length (executionOrder sel).
        fst (executeTools w sel files msg s) ! i =
          pushed_result (executionOrder sel ! i)
            (fst (dispatch_one w sel files msg (executionOrder sel ! i)
                   (state_after w sel files msg (take i (executionOrder sel)) s)))"
    by (simp only: run) (intro allI impI, rule executeLoop_nth)
  have st: "snd (executeTools w sel files msg s) = state_after w sel files msg (executionOrder sel) s"
    by (simp only: run executeLoop_state)
  have log: "dispatched (snd (executeTools w sel files msg s)) = dispatched s @ executionOrder sel"
    by (simp only: st state_after_dispatched)
  show ?thesis using ids len pos st log by blast
qed

text \<open>A run in which the first planned tool fails and the second succeeds.\<close>

lemma ghost_first_outcomes:
  "executionOrder ghost_first = [''ghost_tool'', ''extract_all_from_pdf'']
   \<and> fst (dispatch_one quiet_world ghost_first [report_pdf] ''analyze this'' ''ghost_tool'' running)
       = Inl (new_Error ''Tool ghost_tool not found'')
   \<and> fst (dispatch_one quiet_world ghost_first [report_pdf] ''analyze this'' ''extract_all_from_pdf''
            (state_after quiet_world ghost_first [report_pdf] ''analyze this'' [''ghost_tool''] running))
       = Inr ''{}''
   \<and> dispatched running = []"
  by (simp add: dispatch_one_def state_after_def bridge_defs dispatch_defs text_defs sample_defs Let_def)

theorem executeTools_one_result_per_tool_witness:
  "fst (executeTools quiet_world ghost_first [report_pdf] ''analyze this'' running) ! 0
     = \<lparr> toolId = ''ghost_tool'', success = False, result = None,
         error = Some ''Tool ghost_tool not found'' \<rparr>
   \<and> fst (executeTools quiet_world ghost_first [report_pdf] ''analyze this'' running) ! Suc 0
     = \<lparr> toolId = ''extract_all_from_pdf'', success = True, result = Some ''{}'', error = None \<rparr>
   \<and> length (fst (executeTools quiet_world ghost_first [report_pdf] ''analyze this'' running)) = 2
   \<and> dispatched (snd (executeTools quiet_world ghost_first [report_pdf] ''analyze this'' running))
     = [''ghost_tool'', ''extract_all_from_pdf'']"
proof -
  note T = executeTools_one_result_per_tool[where w = quiet_world and sel = ghost_first
             and files = "[report_pdf]" and msg = "''analyze this''" and s = running]
  note o = ghost_first_outcomes
  note pos = T[THEN conjunct2, THEN conjunct2, THEN conjunct1]
  have 0: "fst (executeTools quiet_world ghost_first [report_pdf] ''analyze this'' running) ! 0
     = \<lparr> toolId = ''ghost_tool'', success = False, result = None,
         error = Some ''Tool ghost_tool not found'' \<rparr>"
    using pos[rule_format, of 0] o by (simp add: pushed_result_def state_after_def)
  have 1: "fst (executeTools quiet_world ghost_first [report_pdf] ''analyze this'' running) ! Suc 0
     = \<lparr> toolId = ''extract_all_from_pdf'', success = True, result = Some ''{}'', error = None \<rparr>"
    using pos[rule_format, of "Suc 0"] o by (simp add: pushed_result_def)
  have len: "length (fst (executeTools quiet_world ghost_first [report_pdf] ''analyze this'' running)) = 2"
    using T[THEN conjunct2, THEN conjunct1] o by simp
  have log: "dispatched (snd (executeTools quiet_world ghost_first [report_pdf] ''analyze this'' running))
     = [''ghost_tool'', ''extract_all_from_pdf'']"
    using T[THEN conjunct2, THEN conjunct2, THEN conjunct2, THEN conjunct2] o by simp
  show ?thesis using 0 1 len log by simp
qed

section \<open>The conversation context\<close>

lemma context_of_other_id:
  "cid' \<noteq> cid \<Longrightarrow>
     getConversationContext (updateConversationContext cid x s) cid' = getConversationContext s cid'"
  by (simp add: updateConversationContext_def getConversationContext_def Let_def)

lemma last_twenty_step:
  fixes xs :: "'a list"
  shows "(let c = drop (length xs - 20) xs @ [x] in if length c > 20 then drop (length c - 20) c else c)
       = drop (length (xs @ [x]) - 20) (xs @ [x])"
proof (cases "length xs < 20")
  case True
  then show ?thesis by (simp add: Let_def)
next
  case False
  then have "length xs - 20 + 1 = Suc (length xs) - 20" by simp
  with False show ?thesis by (simp add: Let_def Suc_diff_le drop_Suc tl_drop min_def)
qed

lemma recordTurns_snoc:
  "recordTurns (turns @ [(cid, x)]) s = updateConversationContext cid x (recordTurns turns s)"
  by (simp add: recordTurns_def)

lemma context_after_recordTurns:
  assumes "activeConversations s = Map.empty"
  shows "getConversationContext (recordTurns turns s) cid =
           drop (length (turnsOf cid turns) - 20) (turnsOf cid turns)"
proof (induction turns rule: rev_induct)
  case Nil
  show ?case using assms by (simp add: recordTurns_def getConversationContext_def turnsOf_def)
next
  case (snoc p turns)
  obtain c x where p: "p = (c, x)" by (cases p)
  show ?case
  proof (cases "c = cid")
    case True
    have mine: "turnsOf cid (turns @ [p]) = turnsOf cid turns @ [x]"
      using True by (simp add: p turnsOf_def)
    have "getConversationContext (recordTurns (turns @ [p]) s) cid =
            (let k = getConversationContext (recordTurns turns s) cid @ [x]
             in if length k > 20 then drop (length k - 20) k else k)"
      unfolding p recordTurns_snoc True by (rule context_after_update)
    also have "\<dots> = (let k = drop (length (turnsOf cid turns) - 20) (turnsOf cid turns) @ [x]
                        in if length k > 20 then drop (length k - 20) k else k)"
      by (simp only: snoc.IH)
    also have "\<dots> = drop (length (turnsOf cid turns @ [x]) - 20) (turnsOf cid turns @ [x])"
      by (rule last_twenty_step)
    finally show ?thesis by (simp only: mine)
  next
    case False
    then have "turnsOf cid (turns @ [p]) = turnsOf cid turns"
      by (simp add: p turnsOf_def)
    with False show ?thesis
      unfolding p recordTurns_snoc by (simp add: context_of_other_id snoc.IH)
  qed
qed

text \<open>
  Claim C7. A stored context of at most 20 turns still has at most 20 after a turn is
  appended; appending to a context of exactly 20 drops its oldest turn and keeps the other
  19 in order, followed by the new one; below 20 nothing is dropped. Starting from a
  bridge without conversations, after any sequence of recorded turns the context of a
  conversation id is the last 20 of the turns recorded for that id, in the order they
  were recorded.
\<close>

theorem context_bounded_fifo:
  "(length (getConversationContext s cid) \<le> 20 \<longrightarrow>
      length (getConversationContext (updateConversationContext cid x s) cid) \<le> 20)
   \<and> (length (getConversationContext s cid) = 20 \<longrightarrow>
      getConversationContext (updateConversationContext cid x s) cid
        = tl (getConversationContext s cid) @ [x])
   \<and> (length (getConversationContext s cid) < 20 \<longrightarrow>
      getConversationContext (updateConversationContext cid x s) cid
        = getConversationContext s cid @ [x])
   \<and> (activeConversations s = Map.empty \<longrightarrow>
      length (getConversationContext (recordTurns turns s) cid) \<le> 20
      \<and> getConversationContext (recordTurns turns s) cid
          = drop (length (turnsOf cid turns) - 20) (turnsOf cid turns))"
proof (intro conjI impI)
  assume "length (getConversationContext s cid) \<le> 20"
  then show "length (getConversationContext (updateConversationContext cid x s) cid) \<le> 20"
    by (simp add: context_after_update Let_def)
next
  assume "length (getConversationContext s cid) = 20"
  then show "getConversationContext (updateConversationContext cid x s) cid
               = tl (getConversationContext s cid) @ [x]"
    by (cases "getConversationContext s cid") (simp_all add: context_after_update Let_def)
next
  assume "length (getConversationContext s cid) < 20"
  then show "getConversationContext (updateConversationContext cid x s) cid
               = getConversationContext s cid @ [x]"
    by (simp add: context_after_update Let_def)
next
  assume e: "activeConversations s = Map.empty"
  show "length (getConversationContext (recordTurns turns s) cid) \<le> 20"
    by (simp add: context_after_recordTurns[OF e])
  show "getConversationContext (recordTurns turns s) cid
          = drop (length (turnsOf cid turns) - 20) (turnsOf cid turns)"
    by (rule context_after_recordTurns[OF e])
qed

lemma twenty_stored:
  "getConversationContext (recordTurns twenty_turns running) ''c1'' = map turn [0..<20]"
proof -
  have e: "activeConversations running = Map.empty" by (simp add: running_def)
  have "turnsOf ''c1'' twenty_turns = map turn [0..<20]"
    by (simp add: turnsOf_def twenty_turns_def filter_map o_def)
  then show ?thesis by (simp add: context_after_recordTurns[OF e])
qed

theorem context_bounded_fifo_witness:
  "length (getConversationContext (recordTurns twenty_turns running) ''c1'') = 20
   \<and> getConversationContext (recordTurns (twenty_turns @ [(''c1'', turn 20)]) running) ''c1''
       = tl (map turn [0..<20]) @ [turn 20]
   \<and> length (getConversationContext (recordTurns (twenty_turns @ [(''c1'', turn 20)]) running) ''c1'') \<le> 20
   \<and> getConversationContext (updateConversationContext ''c1'' (turn 0) running) ''c1'' = [turn 0]"
proof -
  have e: "activeConversations running = Map.empty" by (simp add: running_def)
  have n: "getConversationContext running ''c1'' = []"
    by (simp add: getConversationContext_def running_def)
  have l: "length (getConversationContext (recordTurns twenty_turns running) ''c1'') = 20"
    by (simp add: twenty_stored)
  have full: "getConversationContext (updateConversationContext ''c1'' (turn 20) (recordTurns twenty_turns running)) ''c1''
        = tl (map turn [0..<20]) @ [turn 20]"
    using context_bounded_fifo[of "recordTurns twenty_turns running" "''c1''" "turn 20" "[]"] l
    by (simp add: twenty_stored)
  have first: "getConversationContext (updateConversationContext ''c1'' (turn 0) running) ''c1'' = [turn 0]"
    using context_bounded_fifo[of running "''c1''" "turn 0" "[]"] n by simp
  have bound: "length (getConversationContext (recordTurns (twenty_turns @ [(''c1'', turn 20)]) running) ''c1'') \<le> 20"
    using context_bounded_fifo[of running "''c1''" "turn 0" "twenty_turns @ [(''c1'', turn 20)]"] e by simp
  show ?thesis using l full first bound by (simp add: recordTurns_snoc)
qed

section \<open>Switching the model\<close>

text \<open>
  Claim C10. When \<^verbatim>\<open>switchModel\<close> is called with a model id for which no client was
  initialised, it fails with the error of \<^verbatim>\<open>getModel\<close> and the whole state, the
  active model handle in particular, is what it was before; a request processed afterwards
  is processed exactly as it would have been without the attempt.
\<close>

theorem switchModel_unknown_keeps_model:
  assumes "modelClients s modelId = None"
  shows "switchModel s modelId = (Inl (new_Error (''Model '' @ modelId @ '' not available'')), s)
       \<and> currentModel (snd (switchModel s modelId)) = currentModel s
       \<and> processUserRequest w cid msg files (snd (switchModel s modelId))
           = processUserRequest w cid msg files s"
  using assms by (simp add: switchModel_def getModel_def)

theorem switchModel_unknown_keeps_model_witness:
  "modelClients running ''gpt-4o'' = None
   \<and> switchModel running ''gpt-4o'' = (Inl (new_Error ''Model gpt-4o not available''), running)
   \<and> currentModel (snd (switchModel running ''gpt-4o'')) = Some qwen_3"
proof -
  have h: "modelClients running ''gpt-4o'' = None" by (simp add: running_def)
  have "currentModel running = Some qwen_3" by (simp add: running_def)
  with h switchModel_unknown_keeps_model[OF h] show ?thesis by simp
qed

section \<open>Confidence of a turn\<close>






section \<open>Parsing a plan wrapped in prose\<close>

lemma jsonMatch_wrapped:
  assumes "\<forall>c\<in>set before. c \<noteq> CHR ''{''" "\<forall>c\<in>set after. c \<noteq> CHR ''}''"
  shows "jsonMatch (before @ (CHR ''{'' # inner @ [CHR ''}'']) @ after) = Some (CHR ''{'' # inner @ [CHR ''}''])"
proof -
  have 1: "dropWhile (\<lambda>c. c \<noteq> CHR ''{'') (before @ (CHR ''{'' # inner @ [CHR ''}'']) @ after)
        = (CHR ''{'' # inner @ [CHR ''}'']) @ after"
    using assms(1) by (simp add: dropWhile_append2)
  have "dropWhile (\<lambda>c. c \<noteq> CHR ''}'') (rev after @ CHR ''}'' # rev inner)
        = dropWhile (\<lambda>c. c \<noteq> CHR ''}'') (CHR ''}'' # rev inner)"
    by (rule dropWhile_append2) (use assms(2) in simp)
  then have 2: "dropWhile (\<lambda>c. c \<noteq> CHR ''}'') (rev (inner @ [CHR ''}''] @ after)) = CHR ''}'' # rev inner"
    by simp
  show ?thesis
    unfolding jsonMatch_def 1 using 2 by (simp add: Let_def)
qed

text \<open>
  Claim C8. Let the model's text be a span \<^verbatim>\<open>{...}\<close> that \<^verbatim>\<open>JSON.parse\<close> reads as a
  plan object with a \<^verbatim>\<open>selected_tools\<close> array, with prose before and after it that
  contains no brace. Then the regular expression extracts exactly that span, the parsing
  step of \<^verbatim>\<open>selectTools\<close> yields the plan, and \<^verbatim>\<open>selectTools\<close> returns the validated
  plan, not the heuristic fallback. When the whole text is not itself valid JSON, the
  same holds for \<^verbatim>\<open>generateStructuredResponse\<close> and \<^verbatim>\<open>selectToolsWithClaude\<close>.
\<close>

theorem prose_wrapped_plan_is_parsed:
  assumes "\<forall>c\<in>set (before @ after). c \<noteq> CHR ''{'' \<and> c \<noteq> CHR ''}''"
      and "jsonParse w (CHR ''{'' # inner @ [CHR ''}'']) = Some pj"
      and "pj_selected_tools pj = Some chosen"
      and "activeTools s \<noteq> []"
      and "generate w (generated s) = Inr (before @ (CHR ''{'' # inner @ [CHR ''}'']) @ after)"
  shows "jsonMatch (before @ (CHR ''{'' # inner @ [CHR ''}'']) @ after) = Some (CHR ''{'' # inner @ [CHR ''}''])
       \<and> parseToolSelection w (before @ (CHR ''{'' # inner @ [CHR ''}'']) @ after) = Some pj
       \<and> fst (selectTools w files s) =
           \<lparr> selected_tools = filter (\<lambda>tid. list_ex (\<lambda>t. tool_id (fst t) = tid) (activeTools s)) chosen,
             execution_order = pj_execution_order pj, tool_parameters = pj_tool_parameters pj \<rparr>
       \<and> (jsonParse w (before @ (CHR ''{'' # inner @ [CHR ''}'']) @ after) = None \<longrightarrow>
            parseStructured w (before @ (CHR ''{'' # inner @ [CHR ''}'']) @ after) = Inr pj
            \<and> fst (selectToolsWithClaude w files s) =
                \<lparr> selected_tools = filter (\<lambda>tid. list_ex (\<lambda>t. tool_id (fst t) = tid) (activeTools s)) chosen,
                  execution_order = pj_execution_order pj, tool_parameters = pj_tool_parameters pj \<rparr>)"
proof -
  let ?J = "CHR ''{'' # inner @ [CHR ''}'']"
  let ?txt = "before @ ?J @ after"
  have m: "jsonMatch ?txt = Some ?J"
    using assms(1) by (intro jsonMatch_wrapped) auto
  have p: "parseToolSelection w ?txt = Some pj"
    by (simp only: parseToolSelection_def m option.case assms(2))
  have sel: "fst (selectTools w files s) =
           \<lparr> selected_tools = filter (\<lambda>tid. list_ex (\<lambda>t. tool_id (fst t) = tid) (activeTools s)) chosen,
             execution_order = pj_execution_order pj, tool_parameters = pj_tool_parameters pj \<rparr>"
    using assms(3,4,5) p by (simp add: selectTools_def generateResponse_def validate_selection_def)
  have st: "parseStructured w ?txt = Inr pj" if "jsonParse w ?txt = None"
    using that by (simp only: parseStructured_def m option.case assms(2))
  have cl: "fst (selectToolsWithClaude w files s) =
           \<lparr> selected_tools = filter (\<lambda>tid. list_ex (\<lambda>t. tool_id (fst t) = tid) (activeTools s)) chosen,
             execution_order = pj_execution_order pj, tool_parameters = pj_tool_parameters pj \<rparr>"
    if "jsonParse w ?txt = None"
    using assms(3,4,5) st[OF that]
    by (simp add: selectToolsWithClaude_def generateStructuredResponse_def generateResponse_def
                  validate_selection_def)
  show ?thesis using m p sel st cl by blast
qed

theorem prose_wrapped_plan_is_parsed_witness:
  \<open>jsonMatch (''Here is the plan: '' @ ''{"selected_tools":["pdf_analyzer"]}'' @ '' thanks'')
     = Some ''{"selected_tools":["pdf_analyzer"]}''
   \<and> parseToolSelection prose_world (''Here is the plan: '' @ ''{"selected_tools":["pdf_analyzer"]}'' @ '' thanks'')
     = Some good_plan
   \<and> fst (selectTools prose_world [report_pdf] running) =
       \<lparr> selected_tools = [''pdf_analyzer''], execution_order = None, tool_parameters = [] \<rparr>
   \<and> parseStructured prose_world (''Here is the plan: '' @ ''{"selected_tools":["pdf_analyzer"]}'' @ '' thanks'')
     = Inr good_plan
   \<and> fst (selectToolsWithClaude prose_world [report_pdf] running) =
       \<lparr> selected_tools = [''pdf_analyzer''], execution_order = None, tool_parameters = [] \<rparr>\<close>
proof -
  let ?before = "''Here is the plan: ''" and ?after = "'' thanks''"
  let ?inner = \<open>''"selected_tools":["pdf_analyzer"]''\<close>
  have J: \<open>CHR ''{'' # ?inner @ [CHR ''}''] = ''{"selected_tools":["pdf_analyzer"]}''\<close> by simp
  have h1: "\<forall>c\<in>set (?before @ ?after). c \<noteq> CHR ''{'' \<and> c \<noteq> CHR ''}''" by simp
  have h2: "jsonParse prose_world (CHR ''{'' # ?inner @ [CHR ''}'']) = Some good_plan"
    by (simp add: prose_world_def good_plan_text_def)
  have h3: "pj_selected_tools good_plan = Some [''pdf_analyzer'']" by (simp add: good_plan_def)
  have act: "map (\<lambda>t. tool_id (fst t)) (activeTools running) = [''pdf_analyzer'', ''extract_all_from_pdf'']"
    by (simp add: activeTools_def getAvailableTools_def isToolAvailable_def server_or_default_def
                  running_def pdf_analyzer_def extract_all_from_pdf_def document_analysis_def)
  then have h4: "activeTools running \<noteq> []" by auto
  have h5: "generate prose_world (generated running)
              = Inr (?before @ (CHR ''{'' # ?inner @ [CHR ''}'']) @ ?after)"
    by (simp add: prose_world_def good_plan_text_def running_def)
  have h6: "jsonParse prose_world (?before @ (CHR ''{'' # ?inner @ [CHR ''}'']) @ ?after) = None"
    by (simp add: prose_world_def quiet_world_def good_plan_text_def)
  have f: "filter (\<lambda>tid. list_ex (\<lambda>t. tool_id (fst t) = tid) (activeTools running)) [''pdf_analyzer'']
             = [''pdf_analyzer'']"
    by (simp add: activeTools_def getAvailableTools_def isToolAvailable_def server_or_default_def
                  running_def pdf_analyzer_def extract_all_from_pdf_def document_analysis_def)
  show ?thesis
    using prose_wrapped_plan_is_parsed[OF h1 h2 h3 h4 h5, of "[report_pdf]"] h6 f
    by (simp add: good_plan_def)
qed

section \<open>A turn always yields a response\<close>

text \<open>
  Claim C5. \<^verbatim>\<open>processUserRequest\<close> returns a response object for every conversation id,
  message, file list, state and world. Whatever error its \<^verbatim>\<open>try\<close> block raises, the
  caller receives the apology text built from the error message, an empty tool list,
  confidence 0 and the message in the error field; when no model is available (or the
  bridge is not initialised) this is the answer, and the state is unchanged. When the
  block raises nothing, its response object is returned, with no error field.
\<close>

theorem processUserRequest_always_answers:
  "(\<forall>e s'. processUserRequest_try w cid msg files s = (Inl e, s') \<longrightarrow>
       processUserRequest w cid msg files s =
         (\<lparr> response = ''I encountered an error while processing your request: '' @ message e @
                        ''. Please check that your files are valid and the system is properly configured.'',
            toolsUsed = [], turn_confidence = 0, conversationId = cid,
            turn_error = Some (message e) \<rparr>, s'))
   \<and> (\<forall>r s'. processUserRequest_try w cid msg files s = (Inr r, s') \<longrightarrow>
       processUserRequest w cid msg files s = (r, s') \<and> turn_error r = None)
   \<and> (isInitialized s \<and> currentModel s = None \<longrightarrow>
       processUserRequest w cid msg files s =
         (\<lparr> response = ''I encountered an error while processing your request: No model available. Please check that your files are valid and the system is properly configured.'',
            toolsUsed = [], turn_confidence = 0, conversationId = cid,
            turn_error = Some ''No model available'' \<rparr>, s))
   \<and> (\<not> isInitialized s \<longrightarrow>
       processUserRequest w cid msg files s =
         (\<lparr> response = ''I encountered an error while processing your request: MCP Bridge not initialized. Please check that your files are valid and the system is properly configured.'',
            toolsUsed = [], turn_confidence = 0, conversationId = cid,
            turn_error = Some ''MCP Bridge not initialized'' \<rparr>, s))"
proof (intro conjI allI impI)
  fix e s'
  assume "processUserRequest_try w cid msg files s = (Inl e, s')"
  then show "processUserRequest w cid msg files s =
         (\<lparr> response = ''I encountered an error while processing your request: '' @ message e @
                        ''. Please check that your files are valid and the system is properly configured.'',
            toolsUsed = [], turn_confidence = 0, conversationId = cid,
            turn_error = Some (message e) \<rparr>, s')"
    by (simp add: processUserRequest_def)
next
  fix r s'
  assume a: "processUserRequest_try w cid msg files s = (Inr r, s')"
  then show "processUserRequest w cid msg files s = (r, s')"
    by (simp add: processUserRequest_def)
  from a show "turn_error r = None"
    by (auto simp: processUserRequest_try_def Let_def split: if_splits option.splits prod.splits)
next
  assume "isInitialized s \<and> currentModel s = None"
  then show "processUserRequest w cid msg files s =
         (\<lparr> response = ''I encountered an error while processing your request: No model available. Please check that your files are valid and the system is properly configured.'',
            toolsUsed = [], turn_confidence = 0, conversationId = cid,
            turn_error = Some ''No model available'' \<rparr>, s)"
    by (simp add: processUserRequest_def processUserRequest_try_def)
next
  assume "\<not> isInitialized s"
  then show "processUserRequest w cid msg files s =
         (\<lparr> response = ''I encountered an error while processing your request: MCP Bridge not initialized. Please check that your files are valid and the system is properly configured.'',
            toolsUsed = [], turn_confidence = 0, conversationId = cid,
            turn_error = Some ''MCP Bridge not initialized'' \<rparr>, s)"
    by (simp add: processUserRequest_def processUserRequest_try_def)
qed

theorem processUserRequest_always_answers_witness:
  "processUserRequest quiet_world ''c1'' ''hello'' [] (running\<lparr>currentModel := None\<rparr>) =
     (\<lparr> response = ''I encountered an error while processing your request: No model available. Please check that your files are valid and the system is properly configured.'',
        toolsUsed = [], turn_confidence = 0, conversationId = ''c1'',
        turn_error = Some ''No model available'' \<rparr>, running\<lparr>currentModel := None\<rparr>)
   \<and> processUserRequest_try quiet_world ''c1'' ''hello'' [] (running\<lparr>currentModel := None\<rparr>) =
       (Inl (new_Error ''No model available''), running\<lparr>currentModel := None\<rparr>)
   \<and> turn_error (fst (processUserRequest quiet_world ''c1'' ''hello'' [] (running\<lparr>isInitialized := False\<rparr>)))
       = Some ''MCP Bridge not initialized''
   \<and> turn_error (fst (processUserRequest layout_world ''c1'' ''analyze this'' [report_pdf] running)) = None
   \<and> response (fst (processUserRequest layout_world ''c1'' ''analyze this'' [report_pdf] running))
       = ''The report has 3 pages.''"
proof -
  let ?nomodel = "running\<lparr>currentModel := None\<rparr>"
  let ?off = "running\<lparr>isInitialized := False\<rparr>"
  let ?T = "processUserRequest_try layout_world ''c1'' ''analyze this'' [report_pdf] running"
  have h1: "isInitialized ?nomodel \<and> currentModel ?nomodel = None" by (simp add: running_def)
  have t1: "processUserRequest_try quiet_world ''c1'' ''hello'' [] ?nomodel =
              (Inl (new_Error ''No model available''), ?nomodel)"
    using h1 by (simp add: processUserRequest_try_def)
  have h2: "\<not> isInitialized ?off" by simp
  have t3: "fst ?T = Inr \<lparr> response = ''The report has 3 pages.'',
       toolsUsed = [''extract_all_from_pdf''], turn_confidence = 1, conversationId = ''c1'', turn_error = None \<rparr>"
    by (simp add: bridge_defs dispatch_defs text_defs sample_defs Let_def)
  then have h3: "?T = (Inr \<lparr> response = ''The report has 3 pages.'',
       toolsUsed = [''extract_all_from_pdf''], turn_confidence = 1, conversationId = ''c1'', turn_error = None \<rparr>, snd ?T)"
    by (metis prod.collapse)
  note a = processUserRequest_always_answers[where w = quiet_world and cid = "''c1''" and msg = "''hello''"
             and files = "[]" and s = ?nomodel]
  note b = processUserRequest_always_answers[where w = quiet_world and cid = "''c1''" and msg = "''hello''"
             and files = "[]" and s = ?off]
  note c = processUserRequest_always_answers[where w = layout_world and cid = "''c1''" and msg = "''analyze this''"
             and files = "[report_pdf]" and s = running]
  have p1: "processUserRequest quiet_world ''c1'' ''hello'' [] ?nomodel =
     (\<lparr> response = ''I encountered an error while processing your request: No model available. Please check that your files are valid and the system is properly configured.'',
        toolsUsed = [], turn_confidence = 0, conversationId = ''c1'',
        turn_error = Some ''No model available'' \<rparr>, ?nomodel)"
    using a h1 t1 by blast
  have p2: "turn_error (fst (processUserRequest quiet_world ''c1'' ''hello'' [] ?off))
       = Some ''MCP Bridge not initialized''"
    using b h2 by simp
  have p3: "processUserRequest layout_world ''c1'' ''analyze this'' [report_pdf] running
       = (\<lparr> response = ''The report has 3 pages.'',
       toolsUsed = [''extract_all_from_pdf''], turn_confidence = 1, conversationId = ''c1'', turn_error = None \<rparr>, snd ?T)"
    using c h3 by blast
  show ?thesis using p1 t1 p2 p3 by simp
qed

section \<open>Parameter translation for the capability server\<close>

text \<open>
  Claim C3 says that the confidence handed to the capability server is clamped to the
  bounds the tool descriptor declares. \<^verbatim>\<open>convertParametersForMCP\<close> never reads the
  descriptor: for the shipped tool \<^verbatim>\<open>extract_all_from_pdf\<close>, whose confidence is declared
  with maximum 0.9, a confidence of 5 goes out as 5.
\<close>

theorem confidence_not_clamped_counterexample:
  "confidence (convertParametersForMCP (tool_id extract_all_from_pdf) eager_args) = JNum 5
   \<and> map_of (parameters extract_all_from_pdf) ''confidence''
       = Some \<lparr> default_value = JNum 0.2, min_value = Some 0.1, max_value = Some 0.9 \<rparr>
   \<and> \<not> (5 \<le> (0.9 :: real))"
  by (simp add: convertParametersForMCP_def eager_args_def pdf_args_def extract_all_from_pdf_def)

text \<open>
  Claim C3 as amended. \<^verbatim>\<open>convertParametersForMCP\<close> takes as the single input path the
  path of the first file whose type is exactly \<^verbatim>\<open>application/pdf\<close> (no path when there is
  none); for a tool whose declared input types are just \<^verbatim>\<open>application/pdf\<close>, as for every
  capability-server tool of the shipped catalogue, that is the first file of a declared
  type. The confidence is the one of the invocation, passed through unchanged, and 0.2
  when the invocation has none. The result does not depend on the tool.
\<close>

theorem convertParametersForMCP_passes_through:
  "(inv_files args = before @ f # after \<and> file_type f = ''application/pdf''
       \<and> (\<forall>g\<in>set before. file_type g \<noteq> ''application/pdf'')
       \<longrightarrow> pdf_path (convertParametersForMCP tid args) = file_path f)
   \<and> ((\<forall>g\<in>set (inv_files args). file_type g \<noteq> ''application/pdf'')
       \<longrightarrow> pdf_path (convertParametersForMCP tid args) = None)
   \<and> (input_types tc = [''application/pdf'']
       \<longrightarrow> pdf_path (convertParametersForMCP tid args)
           = (case find (\<lambda>f. file_type f \<in> set (input_types tc)) (inv_files args) of
                None \<Rightarrow> None | Some f \<Rightarrow> file_path f))
   \<and> (inv_parameters args = Some ps \<and> obj_get ps ''confidence'' \<noteq> JUndefined
       \<longrightarrow> confidence (convertParametersForMCP tid args) = obj_get ps ''confidence'')
   \<and> (inv_parameters args = None \<or> (inv_parameters args = Some ps \<and> obj_get ps ''confidence'' = JUndefined)
       \<longrightarrow> confidence (convertParametersForMCP tid args) = JNum 0.2)
   \<and> convertParametersForMCP tid args = convertParametersForMCP tid' args"
proof (intro conjI impI)
  assume "inv_files args = before @ f # after \<and> file_type f = ''application/pdf''
       \<and> (\<forall>g\<in>set before. file_type g \<noteq> ''application/pdf'')"
  then have "find (\<lambda>f. file_type f = ''application/pdf'') (inv_files args) = Some f"
    by (simp add: find_first)
  then show "pdf_path (convertParametersForMCP tid args) = file_path f"
    by (simp add: convertParametersForMCP_def)
next
  assume "\<forall>g\<in>set (inv_files args). file_type g \<noteq> ''application/pdf''"
  then have "find (\<lambda>f. file_type f = ''application/pdf'') (inv_files args) = None"
    by (simp add: find_none)
  then show "pdf_path (convertParametersForMCP tid args) = None"
    by (simp add: convertParametersForMCP_def)
next
  assume "input_types tc = [''application/pdf'']"
  then show "pdf_path (convertParametersForMCP tid args)
           = (case find (\<lambda>f. file_type f \<in> set (input_types tc)) (inv_files args) of
                None \<Rightarrow> None | Some f \<Rightarrow> file_path f)"
    by (simp add: convertParametersForMCP_def)
next
  assume "inv_parameters args = Some ps \<and> obj_get ps ''confidence'' \<noteq> JUndefined"
  then show "confidence (convertParametersForMCP tid args) = obj_get ps ''confidence''"
    by (simp add: convertParametersForMCP_def)
next
  assume "inv_parameters args = None \<or> (inv_parameters args = Some ps \<and> obj_get ps ''confidence'' = JUndefined)"
  then show "confidence (convertParametersForMCP tid args) = JNum 0.2"
    by (auto simp: convertParametersForMCP_def)
next
  show "convertParametersForMCP tid args = convertParametersForMCP tid' args"
    by (simp add: convertParametersForMCP_def)
qed

theorem convertParametersForMCP_passes_through_witness:
  "convertParametersForMCP ''extract_all_from_pdf'' eager_args
     = \<lparr> pdf_path = Some ''uploads/report.pdf'', confidence = JNum 5 \<rparr>
   \<and> input_types extract_all_from_pdf = [''application/pdf'']
   \<and> convertParametersForMCP ''extract_all_from_pdf''
         \<lparr> inv_files = [], userRequest = ''hello'', inv_parameters = None \<rparr>
     = \<lparr> pdf_path = None, confidence = JNum 0.2 \<rparr>"
proof -
  let ?bare = "\<lparr> inv_files = [], userRequest = ''hello'', inv_parameters = None \<rparr>"
  let ?f = "report_pdf\<lparr>file_path := Some ''uploads/report.pdf''\<rparr>"
  have files: "inv_files eager_args = [] @ ?f # [] \<and> file_type ?f = ''application/pdf''
       \<and> (\<forall>g\<in>set []. file_type g \<noteq> ''application/pdf'')"
    by (simp add: eager_args_def pdf_args_def report_pdf_def)
  have params: "inv_parameters eager_args = Some [(''confidence'', JNum 5)]
       \<and> obj_get [(''confidence'', JNum 5)] ''confidence'' \<noteq> JUndefined"
    by (simp add: eager_args_def pdf_args_def)
  have types: "input_types extract_all_from_pdf = [''application/pdf'']"
    by (simp add: extract_all_from_pdf_def)
  have none: "\<forall>g\<in>set (inv_files ?bare). file_type g \<noteq> ''application/pdf''" by simp
  have absent: "inv_parameters ?bare = None" by simp
  note a = convertParametersForMCP_passes_through[where args = eager_args
             and tid = "''extract_all_from_pdf''" and tc = extract_all_from_pdf
             and before = "[]" and f = ?f and after = "[]" and ps = "[(''confidence'', JNum 5)]"]
  note b = convertParametersForMCP_passes_through[where args = ?bare
             and tid = "''extract_all_from_pdf''" and tc = extract_all_from_pdf]
  have 1: "pdf_path (convertParametersForMCP ''extract_all_from_pdf'' eager_args) = Some ''uploads/report.pdf''"
    using a files by simp
  have 2: "confidence (convertParametersForMCP ''extract_all_from_pdf'' eager_args) = JNum 5"
    using a params by simp
  have 3: "pdf_path (convertParametersForMCP ''extract_all_from_pdf'' ?bare) = None"
    using b none by simp
  have 4: "confidence (convertParametersForMCP ''extract_all_from_pdf'' ?bare) = JNum 0.2"
    using b absent by simp
  have eq: "\<And>m p c. pdf_path m = p \<Longrightarrow> confidence m = c \<Longrightarrow> m = \<lparr> pdf_path = p, confidence = c \<rparr>"
    by simp
  show ?thesis using eq[OF 1 2] eq[OF 3 4] types by simp
qed

section \<open>Candidate endpoints of the capability server\<close>

lemma decimal_202: "decimal 202 = ''202''"
  by (simp add: decimal.simps digit_def)

text \<open>
  Claim C9 says that when every candidate fails, the error that propagates is the first
  candidate's. For \<^verbatim>\<open>extract_all_from_pdf\<close>, let the tool's own endpoint answer 500, so
  that the request is rejected, and let the call-by-name endpoint answer 202. No candidate
  returned 200, yet \<^verbatim>\<open>executeTool\<close> throws the status error of the second candidate, not
  the error of the first.
\<close>

theorem fallback_status_error_counterexample:
  \<open>post accepted_world 0 (specific_request document_analysis ''/extract-all''
        (convertParametersForMCP ''extract_all_from_pdf'' pdf_args))
     = Rejected (JsError (Some ''ERR_BAD_RESPONSE'') ''Request failed with status code 500'')
   \<and> post accepted_world 1 (call_tool_request document_analysis ''extract_all_from_pdf''
        (convertParametersForMCP ''extract_all_from_pdf'' pdf_args))
     = Resolved 202 ''{"status":"accepted"}''
   \<and> fst (MCPClient_executeTool accepted_world ''extract_all_from_pdf'' pdf_args (document_analysis, []))
     = Inl (new_Error ''MCP tool execution failed with status: 202'')
   \<and> fst (MCPClient_executeTool accepted_world ''extract_all_from_pdf'' pdf_args (document_analysis, []))
     \<noteq> Inl (JsError (Some ''ERR_BAD_RESPONSE'') ''Request failed with status code 500'')\<close>
  by (simp add: dispatch_defs sample_defs decimal_202 Let_def)

lemma MCPClient_executeTool_specific:
  assumes "isConnected c" and "toolEndpointMap tid = Some ep"
  shows "MCPClient_executeTool w tid args (c, sent) =
     (case specific_attempt w c ep (convertParametersForMCP tid args) sent of
        (Inr (st, d), sent1) \<Rightarrow>
          if st = 200 then (Inr d, c, sent1)
          else (Inl (new_Error (''MCP tool execution failed with status: '' @ decimal st)), c, sent1)
      | (Inl e1, sent1) \<Rightarrow>
          (case post w (length sent1) (call_tool_request c tid (convertParametersForMCP tid args)) of
             Resolved st d \<Rightarrow>
               if st = 200 then (Inr d, c, sent1 @ [call_tool_request c tid (convertParametersForMCP tid args)])
               else (Inl (new_Error (''MCP tool execution failed with status: '' @ decimal st)), c,
                     sent1 @ [call_tool_request c tid (convertParametersForMCP tid args)])
           | Rejected e2 \<Rightarrow>
               if code e1 = Some ''ECONNREFUSED''
               then (Inl (new_Error (''MCP server '' @ server_name c @ '' is not accessible'')),
                     c\<lparr>isConnected := False\<rparr>,
                     sent1 @ [call_tool_request c tid (convertParametersForMCP tid args)])
               else if code e1 = Some ''ETIMEDOUT''
               then (Inl (new_Error (''MCP tool '' @ tid @ '' execution timed out'')), c,
                     sent1 @ [call_tool_request c tid (convertParametersForMCP tid args)])
               else (Inl e1, c, sent1 @ [call_tool_request c tid (convertParametersForMCP tid args)])))"
proof -
  let ?mp = "convertParametersForMCP tid args"
  obtain r1 sent1 where sa: "specific_attempt w c ep ?mp sent = (r1, sent1)"
    by (cases "specific_attempt w c ep ?mp sent")
  show ?thesis
  proof (cases r1)
    case (Inr resp)
    obtain st d where resp: "resp = (st, d)" by (cases resp)
    show ?thesis
      using assms
      by (simp add: MCPClient_executeTool_def executeTool_try_def Let_def sa Inr resp)
  next
    case (Inl e1)
    show ?thesis
    proof (cases "post w (length sent1) (call_tool_request c tid ?mp)")
      case (Resolved st d)
      show ?thesis
        using assms
        by (simp add: MCPClient_executeTool_def executeTool_try_def axios_post_def Let_def sa Inl Resolved)
    next
      case (Rejected e2)
      show ?thesis
        using assms
        by (simp add: MCPClient_executeTool_def executeTool_try_def axios_post_def Let_def sa Inl Rejected)
    qed
  qed
qed

text \<open>
  Claim C9 as amended. For a connected client and a tool with an entry in
  \<^verbatim>\<open>toolEndpointMap\<close>, the first candidate is the tool's own endpoint (after reading the
  PDF, if there is one); the call-by-name endpoint is requested only if that attempt
  throws. A candidate whose request resolves ends the execution: with the response data
  if its status is 200, with the error "failed with status" otherwise, and no further
  candidate is tried. When the first attempt throws and the second request is rejected,
  the error that propagates is built from the first error alone: "not accessible" (and
  the client is marked disconnected) if its code is ECONNREFUSED, "timed out" if it is
  ETIMEDOUT, the first error itself otherwise.
\<close>

theorem candidates_tried_in_order:
  assumes "isConnected c" and "toolEndpointMap tid = Some ep"
  shows
   "((\<forall>p. pdf_path (convertParametersForMCP tid args) = Some p \<longrightarrow> p = [] \<or> readFile w p = None) \<longrightarrow>
        specific_attempt w c ep (convertParametersForMCP tid args) sent =
          (case post w (length sent) (specific_request c ep (convertParametersForMCP tid args)) of
             Resolved st d \<Rightarrow> (Inr (st, d), sent @ [specific_request c ep (convertParametersForMCP tid args)])
           | Rejected e \<Rightarrow> (Inl e, sent @ [specific_request c ep (convertParametersForMCP tid args)])))
    \<and> (specific_attempt w c ep (convertParametersForMCP tid args) sent = (Inr (200, d), sent') \<longrightarrow>
        MCPClient_executeTool w tid args (c, sent) = (Inr d, c, sent'))
    \<and> (specific_attempt w c ep (convertParametersForMCP tid args) sent = (Inr (st, d), sent') \<and> st \<noteq> 200 \<longrightarrow>
        MCPClient_executeTool w tid args (c, sent) = (Inl (new_Error (''MCP tool execution failed with status: '' @ decimal st)), c, sent'))
    \<and> (specific_attempt w c ep (convertParametersForMCP tid args) sent = (Inl first_error, sent')
        \<and> post w (length sent') (call_tool_request c tid (convertParametersForMCP tid args)) = Resolved 200 d \<longrightarrow>
        MCPClient_executeTool w tid args (c, sent) = (Inr d, c, sent' @ [call_tool_request c tid (convertParametersForMCP tid args)]))
    \<and> (specific_attempt w c ep (convertParametersForMCP tid args) sent = (Inl first_error, sent')
        \<and> post w (length sent') (call_tool_request c tid (convertParametersForMCP tid args)) = Resolved st d \<and> st \<noteq> 200 \<longrightarrow>
        MCPClient_executeTool w tid args (c, sent) = (Inl (new_Error (''MCP tool execution failed with status: '' @ decimal st)), c, sent' @ [call_tool_request c tid (convertParametersForMCP tid args)]))
    \<and> (specific_attempt w c ep (convertParametersForMCP tid args) sent = (Inl first_error, sent')
        \<and> post w (length sent') (call_tool_request c tid (convertParametersForMCP tid args)) = Rejected second_error \<longrightarrow>
        MCPClient_executeTool w tid args (c, sent) =
          (if code first_error = Some ''ECONNREFUSED''
           then (Inl (new_Error (''MCP server '' @ server_name c @ '' is not accessible'')),
                 c\<lparr>isConnected := False\<rparr>, sent' @ [call_tool_request c tid (convertParametersForMCP tid args)])
           else if code first_error = Some ''ETIMEDOUT''
           then (Inl (new_Error (''MCP tool '' @ tid @ '' execution timed out'')), c,
                 sent' @ [call_tool_request c tid (convertParametersForMCP tid args)])
           else (Inl first_error, c, sent' @ [call_tool_request c tid (convertParametersForMCP tid args)])))"
proof -
  note run = MCPClient_executeTool_specific[OF assms, of w args sent]
  have first: "specific_attempt w c ep (convertParametersForMCP tid args) sent =
          (case post w (length sent) (specific_request c ep (convertParametersForMCP tid args)) of
             Resolved st d \<Rightarrow> (Inr (st, d), sent @ [specific_request c ep (convertParametersForMCP tid args)])
           | Rejected e \<Rightarrow> (Inl e, sent @ [specific_request c ep (convertParametersForMCP tid args)]))"
    if "\<forall>p. pdf_path (convertParametersForMCP tid args) = Some p \<longrightarrow> p = [] \<or> readFile w p = None"
    using that
    by (cases "pdf_path (convertParametersForMCP tid args)")
       (auto simp: specific_attempt_def axios_post_def split: http_result.splits)
  have a: "MCPClient_executeTool w tid args (c, sent) = (Inr d, c, sent')"
    if "specific_attempt w c ep (convertParametersForMCP tid args) sent = (Inr (200, d), sent')"
    using that by (simp add: run)
  have b: "MCPClient_executeTool w tid args (c, sent) = (Inl (new_Error (''MCP tool execution failed with status: '' @ decimal st)), c, sent')"
    if "specific_attempt w c ep (convertParametersForMCP tid args) sent = (Inr (st, d), sent') \<and> st \<noteq> 200"
    using that by (simp add: run)
  have c: "MCPClient_executeTool w tid args (c, sent) = (Inr d, c, sent' @ [call_tool_request c tid (convertParametersForMCP tid args)])"
    if "specific_attempt w c ep (convertParametersForMCP tid args) sent = (Inl first_error, sent')
        \<and> post w (length sent') (call_tool_request c tid (convertParametersForMCP tid args)) = Resolved 200 d"
    using that by (simp add: run)
  have d: "MCPClient_executeTool w tid args (c, sent) = (Inl (new_Error (''MCP tool execution failed with status: '' @ decimal st)), c, sent' @ [call_tool_request c tid (convertParametersForMCP tid args)])"
    if "specific_attempt w c ep (convertParametersForMCP tid args) sent = (Inl first_error, sent')
        \<and> post w (length sent') (call_tool_request c tid (convertParametersForMCP tid args)) = Resolved st d \<and> st \<noteq> 200"
    using that by (simp add: run)
  have e: "MCPClient_executeTool w tid args (c, sent) =
          (if code first_error = Some ''ECONNREFUSED''
           then (Inl (new_Error (''MCP server '' @ server_name c @ '' is not accessible'')),
                 c\<lparr>isConnected := False\<rparr>, sent' @ [call_tool_request c tid (convertParametersForMCP tid args)])
           else if code first_error = Some ''ETIMEDOUT''
           then (Inl (new_Error (''MCP tool '' @ tid @ '' execution timed out'')), c,
                 sent' @ [call_tool_request c tid (convertParametersForMCP tid args)])
           else (Inl first_error, c, sent' @ [call_tool_request c tid (convertParametersForMCP tid args)]))"
    if "specific_attempt w c ep (convertParametersForMCP tid args) sent = (Inl first_error, sent')
        \<and> post w (length sent') (call_tool_request c tid (convertParametersForMCP tid args)) = Rejected second_error"
    using that by (simp add: run)
  show ?thesis
    by (intro conjI impI) (fact first a b c d e)+
qed

lemma two_answers_post: "post (two_answers a b) n r = (if n = 0 then a else b)"
  by (simp add: two_answers_def)

lemma two_answers_readFile: "readFile (two_answers a b) p = None"
  by (simp add: two_answers_def quiet_world_def)

theorem candidates_tried_in_order_witness:
  \<open>fst (MCPClient_executeTool (two_answers (Resolved 200 ''{"figures":3}'') (Resolved 200 ''unused''))
          ''extract_all_from_pdf'' pdf_args (document_analysis, [])) = Inr ''{"figures":3}''
   \<and> length (snd (snd (MCPClient_executeTool (two_answers (Resolved 200 ''{"figures":3}'') (Resolved 200 ''unused''))
          ''extract_all_from_pdf'' pdf_args (document_analysis, [])))) = 1
   \<and> fst (MCPClient_executeTool (two_answers (Resolved 204 []) (Resolved 200 ''unused''))
          ''extract_all_from_pdf'' pdf_args (document_analysis, []))
       = Inl (new_Error (''MCP tool execution failed with status: '' @ decimal 204))
   \<and> fst (MCPClient_executeTool (two_answers (Rejected (JsError (Some ''ERR_BAD_RESPONSE'') ''Request failed with status code 500''))
                                             (Resolved 200 ''{"figures":3}''))
          ''extract_all_from_pdf'' pdf_args (document_analysis, [])) = Inr ''{"figures":3}''
   \<and> fst (MCPClient_executeTool (two_answers (Rejected (JsError (Some ''ERR_BAD_RESPONSE'') ''Request failed with status code 500''))
                                             (Resolved 202 ''{"status":"accepted"}''))
          ''extract_all_from_pdf'' pdf_args (document_analysis, []))
       = Inl (new_Error (''MCP tool execution failed with status: '' @ decimal 202))
   \<and> fst (MCPClient_executeTool (two_answers (Rejected (JsError (Some ''ERR_BAD_RESPONSE'') ''Request failed with status code 500''))
                                             (Rejected (JsError (Some ''ERR_BAD_RESPONSE'') ''Request failed with status code 503'')))
          ''extract_all_from_pdf'' pdf_args (document_analysis, []))
       = Inl (JsError (Some ''ERR_BAD_RESPONSE'') ''Request failed with status code 500'')\<close>
proof -
  let ?c = document_analysis and ?tid = "''extract_all_from_pdf''" and ?ep = "''/extract-all''"
  let ?mp = "convertParametersForMCP ?tid pdf_args"
  let ?req1 = "specific_request ?c ?ep ?mp" and ?req2 = "call_tool_request ?c ?tid ?mp"
  let ?e500 = "JsError (Some ''ERR_BAD_RESPONSE'') ''Request failed with status code 500''"
  let ?e503 = "JsError (Some ''ERR_BAD_RESPONSE'') ''Request failed with status code 503''"
  have conn: "isConnected ?c" by (simp add: document_analysis_def)
  have ep: "toolEndpointMap ?tid = Some ?ep" by (simp add: toolEndpointMap_def)
  note T = candidates_tried_in_order[OF conn ep, where args = pdf_args and sent = "[]"]
  have sa: "specific_attempt (two_answers a b) ?c ?ep ?mp [] =
              (case a of Resolved st d \<Rightarrow> (Inr (st, d), [?req1]) | Rejected e \<Rightarrow> (Inl e, [?req1]))" for a b
    using T[where w = "two_answers a b", THEN conjunct1]
    by (simp add: two_answers_post two_answers_readFile split: http_result.splits)
  have 1: \<open>MCPClient_executeTool (two_answers (Resolved 200 ''{"figures":3}'') (Resolved 200 ''unused''))
             ?tid pdf_args (?c, []) = (Inr ''{"figures":3}'', ?c, [?req1])\<close>
    using T[where w = \<open>two_answers (Resolved 200 ''{"figures":3}'') (Resolved 200 ''unused'')\<close>
              and sent' = "[?req1]" and d = \<open>''{"figures":3}''\<close> and st = 200 and first_error = ?e500 and second_error = ?e503]
    by (simp add: sa)
  have 2: "MCPClient_executeTool (two_answers (Resolved 204 []) (Resolved 200 ''unused''))
             ?tid pdf_args (?c, [])
           = (Inl (new_Error (''MCP tool execution failed with status: '' @ decimal 204)), ?c, [?req1])"
    using T[where w = "two_answers (Resolved 204 []) (Resolved 200 ''unused'')" and sent' = "[?req1]"
              and st = 204 and d = "[]" and first_error = ?e500 and second_error = ?e503]
    by (simp add: sa)
  have 3: \<open>MCPClient_executeTool (two_answers (Rejected ?e500) (Resolved 200 ''{"figures":3}''))
             ?tid pdf_args (?c, []) = (Inr ''{"figures":3}'', ?c, [?req1, ?req2])\<close>
    using T[where w = \<open>two_answers (Rejected ?e500) (Resolved 200 ''{"figures":3}'')\<close>
              and sent' = "[?req1]" and first_error = ?e500 and d = \<open>''{"figures":3}''\<close> and st = 200 and second_error = ?e503]
    by (simp add: sa two_answers_post)
  have 4: \<open>MCPClient_executeTool (two_answers (Rejected ?e500) (Resolved 202 ''{"status":"accepted"}''))
             ?tid pdf_args (?c, [])
           = (Inl (new_Error (''MCP tool execution failed with status: '' @ decimal 202)), ?c, [?req1, ?req2])\<close>
    using T[where w = \<open>two_answers (Rejected ?e500) (Resolved 202 ''{"status":"accepted"}'')\<close>
              and sent' = "[?req1]" and first_error = ?e500 and st = 202 and d = \<open>''{"status":"accepted"}''\<close> and second_error = ?e503]
    by (simp add: sa two_answers_post)
  have 5: "MCPClient_executeTool (two_answers (Rejected ?e500) (Rejected ?e503)) ?tid pdf_args (?c, [])
           = (Inl ?e500, ?c, [?req1, ?req2])"
    using T[where w = "two_answers (Rejected ?e500) (Rejected ?e503)" and sent' = "[?req1]" and first_error = ?e500
              and second_error = ?e503 and st = 200 and d = "[]"]
    by (simp add: sa two_answers_post)
  show ?thesis by (simp only: 1 2 3 4 5 fst_conv snd_conv) simp
qed

section \<open>No retry around the dispatcher\<close>

lemma specific_attempt_sent:
  "length (snd (specific_attempt w c ep mp sent)) \<le> length sent + 1"
  by (auto simp: specific_attempt_def axios_post_def split: option.splits http_result.splits)

lemma executeTool_try_sent:
  "length (snd (executeTool_try w c tid args sent)) \<le> length sent + 2"
proof (cases "isConnected c")
  case False
  then show ?thesis by (simp add: executeTool_try_def)
next
  case True
  let ?mp = "convertParametersForMCP tid args"
  show ?thesis
  proof (cases "toolEndpointMap tid")
    case None
    with True show ?thesis
      by (auto simp: executeTool_try_def axios_post_def Let_def split: http_result.splits prod.splits sum.splits)
  next
    case (Some ep)
    obtain r1 sent1 where sa: "specific_attempt w c ep ?mp sent = (r1, sent1)"
      by (cases "specific_attempt w c ep ?mp sent")
    have l: "length sent1 \<le> length sent + 1"
      using specific_attempt_sent[of w c ep ?mp sent] by (simp add: sa)
    show ?thesis
      using True l
      by (cases r1; cases "post w (length sent1) (call_tool_request c tid ?mp)")
         (auto simp: executeTool_try_def axios_post_def Let_def Some sa split: prod.splits)
  qed
qed

lemma MCPClient_executeTool_sent:
  "length (snd (snd (MCPClient_executeTool w tid args (c, sent)))) \<le> length sent + 2"
proof -
  obtain r sent' where t: "executeTool_try w c tid args sent = (r, sent')"
    by (cases "executeTool_try w c tid args sent")
  have "length sent' \<le> length sent + 2"
    using executeTool_try_sent[of w c tid args sent] by (simp add: t)
  then show ?thesis
    by (cases r) (simp_all add: MCPClient_executeTool_def t)
qed

lemma executeDockerTool_sent:
  "availableTools (snd (executeDockerTool w tc args s)) = availableTools s
   \<and> length (posted (snd (executeDockerTool w tc args s))) \<le> length (posted s) + 1"
  by (auto simp: executeDockerTool_def axios_post_def split: option.splits http_result.splits)

lemma executeMCPTool_sent:
  "availableTools (snd (executeMCPTool w tc args s)) = availableTools s
   \<and> length (posted (snd (executeMCPTool w tc args s))) \<le> length (posted s) + 2"
proof (cases "mcpClients s (server_or_default tc)")
  case None
  then show ?thesis by (simp add: executeMCPTool_def Let_def)
next
  case (Some c)
  let ?args = "args\<lparr>inv_files := map (\<lambda>file. file\<lparr>file_path := Some (upload_path (file_name file))\<rparr>) (inv_files args)\<rparr>"
  obtain r c' sent' where m: "MCPClient_executeTool w (tool_id tc) ?args (c, posted s) = (r, c', sent')"
    by (cases "MCPClient_executeTool w (tool_id tc) ?args (c, posted s)")
  have "length sent' \<le> length (posted s) + 2"
    using MCPClient_executeTool_sent[of w "tool_id tc" ?args c "posted s"] by (simp add: m)
  then show ?thesis by (simp add: executeMCPTool_def Let_def Some m)
qed

lemma ToolManager_executeTool_sent:
  "availableTools (snd (ToolManager_executeTool w tid args s)) = availableTools s
   \<and> length (posted (snd (ToolManager_executeTool w tid args s))) \<le> length (posted s) + candidate_requests s tid"
proof -
  let ?called = "s\<lparr>dispatched := dispatched s @ [tid]\<rparr>"
  have cfg: "getToolConfig ?called tid = getToolConfig s tid" by (simp add: getToolConfig_def)
  show ?thesis
  proof (cases "getToolConfig s tid")
    case None
    then show ?thesis by (simp add: ToolManager_executeTool_def candidate_requests_def cfg Let_def)
  next
    case (Some tc)
    then show ?thesis
      using executeMCPTool_sent[of w tc args ?called] executeDockerTool_sent[of w tc args ?called]
      by (simp add: ToolManager_executeTool_def candidate_requests_def cfg Let_def)
  qed
qed

lemma candidate_requests_cong:
  "availableTools s' = availableTools s \<Longrightarrow> candidate_requests s' = candidate_requests s"
  by (rule ext) (simp add: candidate_requests_def getToolConfig_def)

lemma state_after_sent:
  "availableTools (state_after w sel files msg tids s) = availableTools s
   \<and> length (posted (state_after w sel files msg tids s))
       \<le> length (posted s) + sum_list (map (candidate_requests s) tids)"
proof (induction tids arbitrary: s)
  case Nil
  show ?case by (simp add: state_after_def)
next
  case (Cons tid rest)
  let ?s' = "snd (dispatch_one w sel files msg tid s)"
  have step: "state_after w sel files msg (tid # rest) s = state_after w sel files msg rest ?s'"
    by (simp add: state_after_def)
  have inv: "availableTools ?s' = availableTools s"
    and one: "length (posted ?s') \<le> length (posted s) + candidate_requests s tid"
    using ToolManager_executeTool_sent[of w tid "invocation_for w sel files msg s tid" s]
    by (simp_all add: dispatch_one_def)
  have same: "candidate_requests ?s' = candidate_requests s"
    by (rule candidate_requests_cong[OF inv])
  from Cons.IH[of ?s'] inv one same show ?case
    by (simp add: step)
qed


text \<open>
  Claim C2 says that a dispatcher call that fails twice and then succeeds yields a
  succeeded result under the default retry policy. Let the capability server reject the
  first four requests it gets and answer the fifth with 200, and let the plan select
  \<^verbatim>\<open>extract_all_from_pdf\<close>. A first dispatcher call fails (both candidate endpoints are
  rejected), a second one after it fails as well, a third one after these succeeds.
  \<^verbatim>\<open>executeTools\<close> calls the dispatcher once, records a failed result with the message of
  the first failure, and the turn ends with confidence 0: nothing is retried.
\<close>

theorem no_retry_counterexample:
  \<open>fst (dispatch_one stubborn_world layout_selection [report_pdf] ''analyze this'' ''extract_all_from_pdf''
          running) = Inl unavailable
   \<and> fst (dispatch_one stubborn_world layout_selection [report_pdf] ''analyze this'' ''extract_all_from_pdf''
          (state_after stubborn_world layout_selection [report_pdf] ''analyze this''
             [''extract_all_from_pdf''] running)) = Inl unavailable
   \<and> fst (dispatch_one stubborn_world layout_selection [report_pdf] ''analyze this'' ''extract_all_from_pdf''
          (state_after stubborn_world layout_selection [report_pdf] ''analyze this''
             [''extract_all_from_pdf'', ''extract_all_from_pdf''] running)) = Inr ''{"pages":3}''
   \<and> fst (executeTools stubborn_world layout_selection [report_pdf] ''analyze this'' running)
       = [\<lparr> toolId = ''extract_all_from_pdf'', success = False, result = None,
            error = Some ''Request failed with status code 503'' \<rparr>]
   \<and> dispatched (snd (executeTools stubborn_world layout_selection [report_pdf] ''analyze this'' running))
       = [''extract_all_from_pdf'']
   \<and> length (posted (snd (executeTools stubborn_world layout_selection [report_pdf] ''analyze this'' running)))
       = 2
   \<and> fst (processUserRequest stubborn_world ''c1'' ''analyze this'' [report_pdf] running)
       = \<lparr> response = ''I encountered errors while processing your request: extract_all_from_pdf: Request failed with status code 503. Please check your files and try again.'',
           toolsUsed = [''extract_all_from_pdf''], turn_confidence = 0, conversationId = ''c1'',
           turn_error = None \<rparr>\<close>
  by (simp add: dispatch_one_def state_after_def bridge_defs dispatch_defs text_defs sample_defs Let_def)

text \<open>
  Claim C2 as amended. For a plan of any length the Orchestrator calls the dispatcher
  exactly once for each planned tool, in plan order: the log of dispatcher calls grows by
  exactly the execution order, and the final state is the one these single calls leave.
  The retry policy of the configuration is not consulted. The result at each position
  is the outcome of that position's single call: failed, with the error's message, when
  the call failed, whatever a further call would have returned; succeeded, with its
  payload, when it succeeded. The requests sent are at most the candidate requests of the
  planned tools: one per container tool, two (the two candidate endpoints) per
  capability-server tool.
\<close>

theorem dispatched_once_without_retry:
  "dispatched (snd (executeTools w sel files msg s)) = dispatched s @ executionOrder sel
   \<and> snd (executeTools w sel files msg s) = state_after w sel files msg (executionOrder sel) s
   \<and> length (fst (executeTools w sel files msg s)) = length (executionOrder sel)
   \<and> (i < length (executionOrder sel)
       \<and> fst (dispatch_one w sel files msg (executionOrder sel ! i)
                 (state_after w sel files msg (take i (executionOrder sel)) s)) = Inl failure
       \<longrightarrow> fst (executeTools w sel files msg s) ! i =
             \<lparr> toolId = executionOrder sel ! i, success = False, result = None,
               error = Some (message failure) \<rparr>)
   \<and> (i < length (executionOrder sel)
       \<and> fst (dispatch_one w sel files msg (executionOrder sel ! i)
                 (state_after w sel files msg (take i (executionOrder sel)) s)) = Inr payload
       \<longrightarrow> fst (executeTools w sel files msg s) ! i =
             \<lparr> toolId = executionOrder sel ! i, success = True, result = Some payload, error = None \<rparr>)
   \<and> length (posted (snd (executeTools w sel files msg s)))
       \<le> length (posted s) + sum_list (map (candidate_requests s) (executionOrder sel))"
proof -
  have run: "executeTools w sel files msg s = executeLoop w sel files msg (executionOrder sel) [] s"
    by (cases "executionOrder sel") (simp_all add: executeTools_def)
  have st: "snd (executeTools w sel files msg s) = state_after w sel files msg (executionOrder sel) s"
    by (simp only: run executeLoop_state)
  have log: "dispatched (snd (executeTools w sel files msg s)) = dispatched s @ executionOrder sel"
    by (simp only: st state_after_dispatched)
  have len: "length (fst (executeTools w sel files msg s)) = length (executionOrder sel)"
    by (simp add: run executeLoop_length)
  have failed: "fst (executeTools w sel files msg s) ! i =
             \<lparr> toolId = executionOrder sel ! i, success = False, result = None,
               error = Some (message failure) \<rparr>"
    if "i < length (executionOrder sel)
       \<and> fst (dispatch_one w sel files msg (executionOrder sel ! i)
                 (state_after w sel files msg (take i (executionOrder sel)) s)) = Inl failure"
    using that executeLoop_nth[of i "executionOrder sel" w sel files msg s]
    by (simp add: run pushed_result_def)
  have succeeded: "fst (executeTools w sel files msg s) ! i =
             \<lparr> toolId = executionOrder sel ! i, success = True, result = Some payload, error = None \<rparr>"
    if "i < length (executionOrder sel)
       \<and> fst (dispatch_one w sel files msg (executionOrder sel ! i)
                 (state_after w sel files msg (take i (executionOrder sel)) s)) = Inr payload"
    using that executeLoop_nth[of i "executionOrder sel" w sel files msg s]
    by (simp add: run pushed_result_def)
  have bound: "length (posted (snd (executeTools w sel files msg s)))
       \<le> length (posted s) + sum_list (map (candidate_requests s) (executionOrder sel))"
    by (simp only: st state_after_sent)
  show ?thesis
    by (intro conjI impI) (fact log st len failed succeeded bound)+
qed

theorem dispatched_once_without_retry_witness:
  "fst (executeTools stubborn_world layout_selection [report_pdf] ''analyze this'' running) ! 0
     = \<lparr> toolId = ''extract_all_from_pdf'', success = False, result = None,
         error = Some ''Request failed with status code 503'' \<rparr>
   \<and> dispatched (snd (executeTools stubborn_world layout_selection [report_pdf] ''analyze this'' running))
     = [''extract_all_from_pdf'']
   \<and> fst (executeTools quiet_world layout_selection [report_pdf] ''analyze this'' running) ! 0
     = \<lparr> toolId = ''extract_all_from_pdf'', success = True, result = Some ''{}'', error = None \<rparr>"
proof -
  have order: "executionOrder layout_selection = [''extract_all_from_pdf'']"
    by (simp add: executionOrder_def layout_selection_def)
  have fails: "fst (dispatch_one stubborn_world layout_selection [report_pdf] ''analyze this''
                      ''extract_all_from_pdf'' running) = Inl unavailable"
    by (simp add: dispatch_one_def bridge_defs dispatch_defs text_defs sample_defs Let_def)
  have works: "fst (dispatch_one quiet_world layout_selection [report_pdf] ''analyze this''
                      ''extract_all_from_pdf'' running) = Inr ''{}''"
    by (simp add: dispatch_one_def bridge_defs dispatch_defs text_defs sample_defs Let_def)
  have log0: "dispatched running = []" by (simp add: running_def)
  note A = dispatched_once_without_retry[where w = stubborn_world and sel = layout_selection
             and files = "[report_pdf]" and msg = "''analyze this''" and s = running and i = 0
             and failure = unavailable and payload = "''{}''"]
  note B = dispatched_once_without_retry[where w = quiet_world and sel = layout_selection
             and files = "[report_pdf]" and msg = "''analyze this''" and s = running and i = 0
             and failure = unavailable and payload = "''{}''"]
  have 1: "fst (executeTools stubborn_world layout_selection [report_pdf] ''analyze this'' running) ! 0
     = \<lparr> toolId = ''extract_all_from_pdf'', success = False, result = None,
         error = Some ''Request failed with status code 503'' \<rparr>"
    using A[THEN conjunct2, THEN conjunct2, THEN conjunct2, THEN conjunct1] order fails
    by (simp add: state_after_def unavailable_def)
  have 2: "dispatched (snd (executeTools stubborn_world layout_selection [report_pdf] ''analyze this'' running))
     = [''extract_all_from_pdf'']"
    using A[THEN conjunct1] order log0 by simp
  have 3: "fst (executeTools quiet_world layout_selection [report_pdf] ''analyze this'' running) ! 0
     = \<lparr> toolId = ''extract_all_from_pdf'', success = True, result = Some ''{}'', error = None \<rparr>"
    using B[THEN conjunct2, THEN conjunct2, THEN conjunct2, THEN conjunct2, THEN conjunct1] order works
    by (simp add: state_after_def)
  show ?thesis using 1 2 3 by simp
qed

section \<open>Tool ids that reach the Executing phase\<close>

text \<open>
  Claim C1 says that the execution order used by the Executing phase holds only ids of
  the live-available catalogue. \<^verbatim>\<open>selectTools\<close> filters \<^verbatim>\<open>selected_tools\<close> only, and
  \<^verbatim>\<open>executeTools\<close> iterates over \<^verbatim>\<open>execution_order\<close> when the plan has one. For a model
  answer that selects \<^verbatim>\<open>pdf_analyzer\<close> and orders \<^verbatim>\<open>ghost_tool\<close>, the filtered selection
  is \<^verbatim>\<open>pdf_analyzer\<close>, the execution order is \<^verbatim>\<open>ghost_tool\<close>, and the turn records a failed
  result for a tool the catalogue does not have. The heuristic fallback is not filtered
  either: with the capability server down and the model unreachable, an uploaded PDF
  puts \<^verbatim>\<open>extract_all_from_pdf\<close> into the execution order although only \<^verbatim>\<open>pdf_analyzer\<close>
  is available.
\<close>

theorem execution_order_not_filtered:
  "selected_tools (fst (selectTools ghost_world [report_pdf] running)) = [''pdf_analyzer'']
   \<and> executionOrder (fst (selectTools ghost_world [report_pdf] running)) = [''ghost_tool'']
   \<and> map (\<lambda>t. tool_id (fst t)) (activeTools running) = [''pdf_analyzer'', ''extract_all_from_pdf'']
   \<and> int_toolResults (last (getConversationContext
         (snd (processUserRequest ghost_world ''c1'' ''analyze this'' [report_pdf] running)) ''c1''))
       = [\<lparr> toolId = ''ghost_tool'', success = False, result = None,
            error = Some ''Tool ghost_tool not found'' \<rparr>]
   \<and> fst (processUserRequest ghost_world ''c1'' ''analyze this'' [report_pdf] running)
       = \<lparr> response = ''I encountered errors while processing your request: ghost_tool: Tool ghost_tool not found. Please check your files and try again.'',
           toolsUsed = [''pdf_analyzer''], turn_confidence = 0, conversationId = ''c1'',
           turn_error = None \<rparr>
   \<and> executionOrder (fst (selectTools silent_world [report_pdf] no_server)) = [''extract_all_from_pdf'']
   \<and> map (\<lambda>t. tool_id (fst t)) (activeTools no_server) = [''pdf_analyzer'']
   \<and> int_toolResults (last (getConversationContext
         (snd (processUserRequest silent_world ''c1'' ''analyze this'' [report_pdf] no_server)) ''c1''))
       = [\<lparr> toolId = ''extract_all_from_pdf'', success = False, result = None,
            error = Some ''MCP client document_analysis not available'' \<rparr>]"
  by (simp add: bridge_defs dispatch_defs text_defs sample_defs Let_def)

end
